theory Spec2Isabelle
  imports Main "HOL-Library.Sublist"
begin

section \<open>JavaScript strings and numbers\<close>

text \<open>
  A JavaScript string is modelled as a list of code units below 256 (the Latin-1 range),
  one \<^typ>\<open>char\<close> per code unit. This range is closed under the string operations the
  program uses (\<open>toLowerCase\<close>, \<open>trim\<close>, \<open>includes\<close>, \<open>split\<close>, \<open>match\<close>). Numbers are
  the integers the program computes with; \<open>NaN\<close> is kept where the code can produce it.
\<close>

definition isWhiteSpace :: "char \<Rightarrow> bool" where
  \<comment> \<open>White space and line terminators as \<open>trim\<close> and \<open>\s\<close> see them: TAB, LF, VT, FF, CR, SP, NBSP.\<close>
  "isWhiteSpace c = (let n = (of_char c :: nat) in (9 \<le> n \<and> n \<le> 13) \<or> n = 32 \<or> n = 160)"

definition toLowerChar :: "char \<Rightarrow> char" where
  \<comment> \<open>A-Z and the Latin-1 capitals (all of 192..222 but the multiplication sign 215) move up by 32.\<close>
  "toLowerChar c = (let n = (of_char c :: nat) in
     if (65 \<le> n \<and> n \<le> 90) \<or> (192 \<le> n \<and> n \<le> 222 \<and> n \<noteq> 215) then char_of (n + 32) else c)"

definition toLowerCase :: "string \<Rightarrow> string" where
  "toLowerCase s = map toLowerChar s"

definition trim :: "string \<Rightarrow> string" where
  "trim s = rev (dropWhile isWhiteSpace (rev (dropWhile isWhiteSpace s)))"

fun str_includes :: "string \<Rightarrow> string \<Rightarrow> bool" where
  \<comment> \<open>\<open>s.includes(k)\<close>: \<open>k\<close> occurs in \<open>s\<close> as a contiguous run.\<close>
  "str_includes [] k = (k = [])"
| "str_includes (c # cs) k = (prefix k (c # cs) \<or> str_includes cs k)"

datatype jsnum = Num int | NaN

text \<open>
  A property read \<open>obj[key]\<close> on a plain object finds the object's own properties and,
  for the names below, the members every object inherits from \<open>Object.prototype\<close>. Each
  of those is a function (for \<open>__proto__\<close> the prototype object itself): truthy, not a
  number, and without any of the properties the program's own data has.
\<close>

definition inheritedNames :: "string list" where
  "inheritedNames =
    [''constructor'', ''toString'', ''toLocaleString'', ''valueOf'', ''hasOwnProperty'',
     ''isPrototypeOf'', ''propertyIsEnumerable'', ''__proto__'', ''__defineGetter__'',
     ''__defineSetter__'', ''__lookupGetter__'', ''__lookupSetter__'']"

section \<open>The dialogue engine (public/js/conversation.js)\<close>

type_synonym impact = "(string \<times> int) list"

record choice =
  choice_text :: string
  choice_impact :: "impact option"
  choice_next :: "string option"
  choice_isEnd :: bool

record scene =
  scene_id :: string
  scene_text :: string
  scene_dialogue :: "string option"
  scene_choices :: "choice list"
  scene_isBreakthrough :: bool
  scene_isEnd :: bool
  scene_outcome :: "string option"

record scenario =
  scenario_title :: string
  scenario_description :: string
  scenes :: "scene list"

record historyEntry =
  h_scene :: string
  h_choice :: string
  h_impact :: "impact option"
  h_timestamp :: nat

record breakthrough =
  b_scenario :: "string option"
  b_scene :: string
  b_timestamp :: nat
  b_description :: string

record appState =
  currentScenario :: "string option"
  currentScene :: string
  playerStats :: "string \<rightharpoonup> jsnum"
  conversationHistory :: "historyEntry list"
  breakthroughs :: "breakthrough list"
  rehearsalAttempts :: "string \<rightharpoonup> jsnum"
  scenarios :: "string \<rightharpoonup> scenario"

text \<open>
  Callbacks handed to \<open>setTimeout\<close> are returned as data: the engine runs them later, one
  at a time, as events of their own. A call either returns or throws a \<open>TypeError\<close> (a
  property read on \<open>undefined\<close>); the mutations made before the throw stay in the state.
\<close>

datatype timer =
    DisplayScene scene
  | ShowCharacterDialogue scene
  | DisplayChoices "choice list"
  | EndConversation bool

datatype completion = Returned | Threw

type_synonym 'a result = "(completion \<times> timer list) \<times> 'a"

definition clampStat :: "jsnum \<Rightarrow> jsnum" where
  \<comment> \<open>\<open>Math.max(0, Math.min(10, x))\<close>; both propagate \<open>NaN\<close>.\<close>
  "clampStat v = (case v of Num x \<Rightarrow> Num (max 0 (min 10 x)) | NaN \<Rightarrow> NaN)"

definition addStat :: "jsnum option \<Rightarrow> int \<Rightarrow> jsnum" where
  \<comment> \<open>\<open>appState.playerStats[stat] + value\<close>: a missing property reads \<open>undefined\<close>, and
      \<open>undefined + value\<close> is \<open>NaN\<close>.\<close>
  "addStat cur v = (case cur of Some (Num x) \<Rightarrow> Num (x + v) | _ \<Rightarrow> NaN)"

definition applyImpact :: "impact \<Rightarrow> (string \<rightharpoonup> jsnum) \<Rightarrow> (string \<rightharpoonup> jsnum)" where
  \<comment> \<open>The \<open>Object.entries(choice.impact).forEach\<close> loop.\<close>
  "applyImpact imp stats =
     foldl (\<lambda>st (stat, v). st(stat \<mapsto> clampStat (addStat (st stat) v))) stats imp"

definition lookupScenario :: "appState \<Rightarrow> scenario option" where
  \<comment> \<open>\<open>appState.scenarios[appState.currentScenario]\<close> when it is a scenario of the object's
      own\<close>
  "lookupScenario s = (case currentScenario s of None \<Rightarrow> None | Some k \<Rightarrow> scenarios s k)"

definition inheritedCurrent :: "appState \<Rightarrow> bool" where
  \<comment> \<open>\<open>appState.scenarios[appState.currentScenario]\<close> is an inherited member: reading
      \<open>.title\<close> of it gives \<open>undefined\<close>, reading \<open>.scenes.find\<close> throws.\<close>
  "inheritedCurrent s =
     (case currentScenario s of
        None \<Rightarrow> False
      | Some k \<Rightarrow> scenarios s k = None \<and> k \<in> set inheritedNames)"

definition findScene :: "scenario \<Rightarrow> string option \<Rightarrow> scene option" where
  \<comment> \<open>\<open>scenario.scenes.find(s => s.id === choice.next)\<close>; a choice without \<open>next\<close> finds nothing.\<close>
  "findScene scenario nxt = find (\<lambda>sc. Some (scene_id sc) = nxt) (scenes scenario)"

definition makeChoice :: "choice \<Rightarrow> nat \<Rightarrow> appState \<Rightarrow> appState result" where
  "makeChoice ch now s =
    (let s1 = s\<lparr>conversationHistory := conversationHistory s @
                  [\<lparr>h_scene = currentScene s, h_choice = choice_text ch,
                    h_impact = choice_impact ch, h_timestamp = now\<rparr>]\<rparr>;
         s2 = (case choice_impact ch of
                 None \<Rightarrow> s1
               | Some imp \<Rightarrow> s1\<lparr>playerStats := applyImpact imp (playerStats s1)\<rparr>)
     in case lookupScenario s2 of
          None \<Rightarrow> ((Threw, []), s2)
        | Some scenario \<Rightarrow>
            (case findScene scenario (choice_next ch) of
               Some nextScene \<Rightarrow>
                 ((Returned, [DisplayScene nextScene]), s2\<lparr>currentScene := scene_id nextScene\<rparr>)
             | None \<Rightarrow>
                 if choice_next ch = Some ''success'' \<or> choice_isEnd ch
                 then ((Returned, [EndConversation True]), s2)
                 else ((Returned, [EndConversation False]), s2)))"

definition recordBreakthrough :: "scene \<Rightarrow> nat \<Rightarrow> appState \<Rightarrow> completion \<times> appState" where
  "recordBreakthrough sc now s =
     (case lookupScenario s of
        None \<Rightarrow>
          if inheritedCurrent s
          then (Returned, s\<lparr>breakthroughs := breakthroughs s @
             [\<lparr>b_scenario = currentScenario s, b_scene = scene_id sc, b_timestamp = now,
               b_description = ''Breakthrough moment in undefined''\<rparr>]\<rparr>)
          else (Threw, s)
      | Some scenario \<Rightarrow>
          (Returned, s\<lparr>breakthroughs := breakthroughs s @
             [\<lparr>b_scenario = currentScenario s, b_scene = scene_id sc, b_timestamp = now,
               b_description = ''Breakthrough moment in '' @ scenario_title scenario\<rparr>]\<rparr>))"

definition displayScene :: "scene \<Rightarrow> nat \<Rightarrow> appState \<Rightarrow> appState result" where
  "displayScene sc now s =
    (let t1 = (if scene_dialogue sc \<noteq> None \<and> scene_dialogue sc \<noteq> Some []
               then [ShowCharacterDialogue sc] else []);
         t2 = (if scene_choices sc \<noteq> [] then [DisplayChoices (scene_choices sc)] else []);
         (c, s1) = (if scene_isBreakthrough sc then recordBreakthrough sc now s else (Returned, s))
     in case c of
          Threw \<Rightarrow> ((Threw, t1 @ t2), s1)
        | Returned \<Rightarrow>
            ((Returned, t1 @ t2 @
               (if scene_isEnd sc then [EndConversation (scene_outcome sc = Some ''success'')] else [])),
             s1))"

definition endConversation :: "bool \<Rightarrow> appState \<Rightarrow> appState result" where
  \<comment> \<open>Builds the closing analysis text from the state and shows it; the state is only read.
      Reading \<open>scenario.title\<close> throws when \<open>scenario\<close> is \<open>undefined\<close>.\<close>
  "endConversation isSuccess s =
     (case lookupScenario s of
        None \<Rightarrow> if inheritedCurrent s then ((Returned, []), s) else ((Threw, []), s)
      | Some scenario \<Rightarrow> ((Returned, []), s))"

definition startConversation :: "scenario \<Rightarrow> nat \<Rightarrow> appState \<Rightarrow> appState result" where
  "startConversation scenario now s =
     (case (case find (\<lambda>sc. scene_id sc = ''intro'') (scenes scenario) of
              Some sc \<Rightarrow> Some sc
            | None \<Rightarrow> (case scenes scenario of [] \<Rightarrow> None | sc # _ \<Rightarrow> Some sc)) of
        Some firstScene \<Rightarrow> displayScene firstScene now s
      | None \<Rightarrow> ((Returned, []), s))"

definition recordAttempt :: "string \<Rightarrow> (string \<rightharpoonup> jsnum) \<Rightarrow> (string \<rightharpoonup> jsnum)" where
  \<comment> \<open>\<open>if (!attempts[id]) attempts[id] = 0; attempts[id]++\<close>. An inherited member is truthy
      and counts up to \<open>NaN\<close>; assigning a number to \<open>__proto__\<close> stores nothing.\<close>
  "recordAttempt scenarioId attempts =
     (case attempts scenarioId of
        Some (Num n) \<Rightarrow> attempts(scenarioId \<mapsto> (if n = 0 then Num 1 else Num (n + 1)))
      | Some NaN \<Rightarrow> attempts(scenarioId \<mapsto> Num 1)
      | None \<Rightarrow>
          if scenarioId \<in> set inheritedNames
          then (if scenarioId = ''__proto__'' then attempts else attempts(scenarioId \<mapsto> NaN))
          else attempts(scenarioId \<mapsto> Num 1))"

definition resetForScenario :: "string \<Rightarrow> appState \<Rightarrow> appState" where
  \<comment> \<open>The assignments of \<open>selectScenario\<close> between the guard and \<open>startConversation\<close>.\<close>
  "resetForScenario scenarioId s =
     s\<lparr>currentScenario := Some scenarioId,
       currentScene := ''intro'',
       playerStats := [''empathy'' \<mapsto> Num 0, ''trust'' \<mapsto> Num 0, ''effectiveness'' \<mapsto> Num 0],
       conversationHistory := [],
       breakthroughs := [],
       rehearsalAttempts := recordAttempt scenarioId (rehearsalAttempts s)\<rparr>"

definition selectScenario :: "string \<Rightarrow> nat \<Rightarrow> appState \<Rightarrow> appState result" where
  \<comment> \<open>\<open>ScenariosModule.selectScenario\<close>: the reset that begins a run. For an inherited name the
      guard \<open>!scenario\<close> lets the call through, the state is reset, and \<open>startConversation\<close>
      throws at \<open>scenario.scenes.find\<close>.\<close>
  "selectScenario scenarioId now s =
     (case scenarios s scenarioId of
        None \<Rightarrow>
          if scenarioId \<in> set inheritedNames
          then ((Threw, []), resetForScenario scenarioId s)
          else ((Returned, []), s)
      | Some scenario \<Rightarrow> startConversation scenario now (resetForScenario scenarioId s))"

text \<open>
  One run of the engine is a sequence of events: the user picks a displayed choice, or a
  pending timer fires. \<open>ShowCharacterDialogue\<close> and \<open>DisplayChoices\<close> only touch the page.
\<close>

datatype event = Choose choice nat | Fire timer nat

fun step :: "event \<Rightarrow> appState \<Rightarrow> appState" where
  "step (Choose ch now) s = snd (makeChoice ch now s)"
| "step (Fire (DisplayScene sc) now) s = snd (displayScene sc now s)"
| "step (Fire (EndConversation b) now) s = snd (endConversation b s)"
| "step (Fire (ShowCharacterDialogue sc) now) s = s"
| "step (Fire (DisplayChoices cs) now) s = s"

definition run :: "event list \<Rightarrow> appState \<Rightarrow> appState" where
  "run evs s = foldl (\<lambda>st ev. step ev st) s evs"

fun isChoose :: "event \<Rightarrow> bool" where
  "isChoose (Choose ch now) = True"
| "isChoose (Fire t now) = False"

definition inRange :: "jsnum option \<Rightarrow> bool" where
  "inRange v = (case v of Some (Num x) \<Rightarrow> 0 \<le> x \<and> x \<le> 10 | _ \<Rightarrow> False)"

section \<open>The in-memory conversation server (server.js)\<close>

record serverScenario =
  s_title :: string
  s_description :: string
  s_difficulty :: string
  s_initialMessage :: string
  s_aiPersona :: string
  s_initial :: string
  s_patterns :: "(string \<times> string list) list"

text \<open>
  \<open>s_initial\<close> and \<open>s_patterns\<close> are \<open>responses.initial\<close> and \<open>responses.patterns\<close>; the
  patterns object is kept as its list of entries and read with \<^const>\<open>map_of\<close>.
\<close>

definition scenario_friendCheckin :: serverScenario where
  "scenario_friendCheckin = \<lparr>
     s_title = ''Checking on a Friend'',
     s_description = ''You've noticed your friend Alex has been quieter lately, missing social gatherings, and seems withdrawn. Practice reaching out with empathy and active listening.'',
     s_difficulty = ''beginner'',
     s_initialMessage = ''You decide to text Alex, who you haven't heard from in a few weeks...'',
     s_aiPersona = ''You are Alex, someone who has been struggling with depression but hasn't talked to anyone about it. You're hesitant to open up but gradually open up if the person shows real empathy and doesn't try to 'fix' everything immediately.'',
     s_initial = ''Hey... I'm okay I guess. Just been really busy with work lately.'',
     s_patterns = [
       (''empathy'', [''Thanks for asking... it means a lot that you noticed.'',
          ''I appreciate you checking in. I have been struggling a bit.'']),
       (''questions'', [''I've been feeling pretty overwhelmed lately, to be honest.'',
          ''It's hard to explain... just feeling really down.'']),
       (''solutions'', [''I know you want to help, but I'm not ready for advice right now.'',
          ''Maybe... I just need someone to listen for now.''])
     ]\<rparr>"

definition scenario_therapySuggestion :: serverScenario where
  "scenario_therapySuggestion = \<lparr>
     s_title = ''Suggesting Therapy'',
     s_description = ''Your friend has been sharing their struggles with anxiety and depression. You think therapy could help, but they've been resistant to the idea.'',
     s_difficulty = ''intermediate'',
     s_initialMessage = ''During a coffee chat, your friend mentions they've been having a really hard time lately...'',
     s_aiPersona = ''You are someone dealing with anxiety and depression who is resistant to therapy due to cost concerns, stigma, and doubt about its effectiveness.'',
     s_initial = ''I don't know... I've been thinking about therapy but it seems so expensive. And what if they just think I'm being dramatic?'',
     s_patterns = [
       (''cost'', [''Yeah, the cost is really what's holding me back. I can barely afford rent as it is.'',
          ''I looked into it but even with insurance it's still expensive.'']),
       (''stigma'', [''I grew up thinking therapy was for 'crazy' people. It's hard to shake that feeling.'',
          ''What if people find out? I'm worried about being judged.'']),
       (''effectiveness'', [''How do I know it will even work? What if I'm just wasting money?'',
          ''I've heard mixed things about therapy. Some people say it helped, others say it didn't.''])
     ]\<rparr>"

definition scenario_workplaceMentalHealth :: serverScenario where
  "scenario_workplaceMentalHealth = \<lparr>
     s_title = ''Workplace Mental Health'',
     s_description = ''A colleague seems to be struggling and their work performance has changed. Navigate this sensitive conversation with appropriate professional boundaries.'',
     s_difficulty = ''intermediate'',
     s_initialMessage = ''You notice a colleague has seemed overwhelmed and stressed lately...'',
     s_aiPersona = ''You are a coworker dealing with burnout and stress but trying to maintain professionalism. You're worried about job security.'',
     s_initial = ''I'm fine, just a lot on my plate right now. I can handle it.'',
     s_patterns = [
       (''workload'', [''The deadlines have been really intense lately.'',
          ''I'm trying to keep up but there's just so much to do.'']),
       (''support'', [''I appreciate you asking... I guess I have been struggling to keep up.'',
          ''It's nice to know someone noticed. I've been trying to hide it.'']),
       (''boundaries'', [''I don't want to burden you with work problems.'',
          ''I'm not sure if I should be talking about this at work.''])
     ]\<rparr>"

definition scenario_familyConversation :: serverScenario where
  "scenario_familyConversation = \<lparr>
     s_title = ''Family Discussion'',
     s_description = ''You want to talk to a family member about mental health, but there are generational differences and potential stigma to navigate.'',
     s_difficulty = ''intermediate'',
     s_initialMessage = ''You're visiting family and want to check in with a relative who seems to be struggling...'',
     s_aiPersona = ''You are an older family member who believes in 'toughing things out' and sees therapy as a sign of weakness.'',
     s_initial = ''Mental health? We didn't have that when I was growing up. We just dealt with our problems.'',
     s_patterns = [
       (''generational'', [''In my day, we didn't talk about feelings all the time.'',
          ''People are too soft nowadays. We just pushed through.'']),
       (''concern'', [''Maybe you're right... I have been feeling different lately.'',
          ''I suppose things were harder to talk about back then.'']),
       (''resistance'', [''I don't need a stranger telling me what's wrong with my life.'',
          ''I've made it this far without help, haven't I?''])
     ]\<rparr>"

definition scenario_crisisResponse :: serverScenario where
  "scenario_crisisResponse = \<lparr>
     s_title = ''Crisis Response'',
     s_description = ''Someone has just expressed thoughts of suicide. This is a practice scenario for learning appropriate crisis intervention techniques.'',
     s_difficulty = ''advanced'',
     s_initialMessage = ''During a conversation, someone you care about mentions they've been having thoughts of ending their life...'',
     s_aiPersona = ''You are someone in emotional crisis who has been having suicidal thoughts. You're scared but also feel hopeless.'',
     s_initial = ''I've been thinking... maybe everyone would be better off if I wasn't here anymore.'',
     s_patterns = [
       (''direct'', [''Yes... I have been thinking about ending my life.'',
          ''It scares me to say it out loud, but yes, I've been having those thoughts.'']),
       (''support'', [''Thank you for asking directly. It helps to know someone cares.'',
          ''I'm scared but I don't know what else to do.'']),
       (''hopeless'', [''I just don't see a way out of this pain.'',
          ''Everything feels impossible right now.''])
     ]\<rparr>"

definition scenario_selfAdvocacy :: serverScenario where
  "scenario_selfAdvocacy = \<lparr>
     s_title = ''Self-Advocacy'',
     s_description = ''Practice asking for help and communicating your own mental health needs to friends, family, or healthcare providers.'',
     s_difficulty = ''beginner'',
     s_initialMessage = ''You've decided it's time to reach out for support with your mental health...'',
     s_aiPersona = ''You are a supportive friend who wants to help but isn't sure how.'',
     s_initial = ''Of course I want to help! What's going on? What can I do?'',
     s_patterns = [
       (''specific'', [''That helps me understand. What kind of support would be most helpful?'',
          ''I appreciate you being specific about what you need.'']),
       (''listening'', [''I'm here to listen. Take your time.'',
          ''You don't have to explain everything at once.'']),
       (''overwhelmed'', [''This sounds like a lot to handle. I'm glad you reached out.'',
          ''I may not have all the answers, but I care about you.''])
     ]\<rparr>"

definition scenario_goingToDoctor :: serverScenario where
  "scenario_goingToDoctor = \<lparr>
     s_title = ''Going to the Doctor'',
     s_description = ''Practice advocating for your mental health with a healthcare provider who might not take your concerns seriously.'',
     s_difficulty = ''intermediate'',
     s_initialMessage = ''You're sitting in the doctor's office, waiting to discuss your mental health concerns...'',
     s_aiPersona = ''You are a busy doctor who sometimes dismisses mental health concerns or rushes through appointments. You need patients to be clear and persistent about their needs.'',
     s_initial = ''So what brings you in today? I see this is listed as a mental health consultation.'',
     s_patterns = [
       (''specific'', [''Those are significant symptoms. How long have you been experiencing this?'',
          ''I can see this is affecting your quality of life. Let's discuss treatment options.'']),
       (''vague'', [''Can you be more specific about what you're experiencing?'',
          ''I need more details to understand how to help you.'']),
       (''persistent'', [''I appreciate you advocating for yourself. Let me refer you to a specialist.'',
          ''You're right to follow up on this. Mental health is important.''])
     ]\<rparr>"

definition scenario_toughWorkConversation :: serverScenario where
  "scenario_toughWorkConversation = \<lparr>
     s_title = ''Tough Conversation at Work'',
     s_description = ''Navigate a difficult workplace discussion about requesting mental health accommodations with your manager.'',
     s_difficulty = ''intermediate'',
     s_initialMessage = ''You've scheduled a meeting with your manager to discuss mental health accommodations...'',
     s_aiPersona = ''You are a manager who cares about employee wellbeing but also needs to balance business needs. You appreciate clear communication and specific requests.'',
     s_initial = ''Thanks for scheduling this meeting. What did you want to discuss?'',
     s_patterns = [
       (''professional'', [''I appreciate you being upfront about this. What accommodations would be helpful?'',
          ''Mental health is important. Let's work together on this.'']),
       (''specific'', [''Those sound like reasonable requests. Let me talk to HR about formalizing this.'',
          ''I can see how that would help. What's the timeline for implementing this?'']),
       (''vague'', [''I want to support you, but I need more specifics about what you need.'',
          ''Help me understand what changes would make the biggest difference.''])
     ]\<rparr>"

definition scenario_askingSomeoneOut :: serverScenario where
  "scenario_askingSomeoneOut = \<lparr>
     s_title = ''Asking Someone Out'',
     s_description = ''Practice handling vulnerability and potential rejection while asking someone you're interested in on a date.'',
     s_difficulty = ''beginner'',
     s_initialMessage = ''You've been getting coffee with Alex from your book club for weeks. Today you want to ask them out...'',
     s_aiPersona = ''You are someone who enjoys spending time with the person but hasn't considered dating them yet. You appreciate honesty and directness.'',
     s_initial = ''I always enjoy our conversations! What's on your mind?'',
     s_patterns = [
       (''direct'', [''Oh! I wasn't expecting that, but I'm flattered. Let me think about it.'',
          ''I appreciate you being honest about how you feel.'']),
       (''respectful'', [''I really value our friendship too. Thank you for being considerate about that.'',
          ''It means a lot that you'd put our friendship first.'']),
       (''casual'', [''That sounds fun! Are you thinking of this as a date, or just hanging out?'',
          ''I'd love to spend more time together. What did you have in mind?''])
     ]\<rparr>"

definition serverScenarios :: "string \<rightharpoonup> serverScenario" where
  \<comment> \<open>The \<open>scenarios\<close> table; \<open>scenarios[scenarioId]\<close> is \<open>serverScenarios scenarioId\<close>.\<close>
  "serverScenarios = map_of [
     (''friend-checkin'', scenario_friendCheckin),
     (''therapy-suggestion'', scenario_therapySuggestion),
     (''workplace-mental-health'', scenario_workplaceMentalHealth),
     (''family-conversation'', scenario_familyConversation),
     (''crisis-response'', scenario_crisisResponse),
     (''self-advocacy'', scenario_selfAdvocacy),
     (''going-to-doctor'', scenario_goingToDoctor),
     (''tough-work-conversation'', scenario_toughWorkConversation),
     (''asking-someone-out'', scenario_askingSomeoneOut)
   ]"

definition crisisKeywords :: "string list" where
  "crisisKeywords =
    [''suicide'', ''kill myself'', ''end it all'', ''not worth living'',
     ''better off dead'', ''hurt myself'', ''self harm'', ''cutting'',
     ''overdose'', ''end my life'', ''no point in living'', ''worthless'',
     ''hopeless'', ''give up'', ''can't go on'', ''want to die'']"

record message =
  m_id :: string
  m_role :: string
  m_content :: "string option"
  m_timestamp :: nat
  m_isCrisis :: "bool option"

text \<open>
  What \<open>scenarios[scenarioId]\<close> can be when it is truthy: a scenario of the table, or the
  member the \<open>scenarios\<close> object inherits under that name, which has no \<open>title\<close> and no
  \<open>responses\<close>.
\<close>

datatype scenarioValue = Own serverScenario | Inherited string

definition scenariosAt :: "string \<Rightarrow> scenarioValue option" where
  \<comment> \<open>\<open>scenarios[scenarioId]\<close>; \<open>None\<close> is \<open>undefined\<close>.\<close>
  "scenariosAt scenarioId =
     (case serverScenarios scenarioId of
        Some scenario \<Rightarrow> Some (Own scenario)
      | None \<Rightarrow> if scenarioId \<in> set inheritedNames then Some (Inherited scenarioId) else None)"

record conversation =
  conv_id :: string
  conv_scenarioId :: string
  conv_scenario :: scenarioValue
  conv_messages :: "message list"
  conv_startTime :: nat
  conv_state :: string

datatype jsError = TypeError

record crisisResources =
  national :: string
  crisis :: string
  trevor :: string

datatype body =
    ErrorBody string
  | StartBody string string string string string
  | ReplyBody message bool "crisisResources option"

record httpResponse =
  status :: nat
  body :: body

text \<open>
  What a request takes from outside the program: the identifiers \<open>uuidv4()\<close> returns, the
  clock readings of \<open>new Date()\<close>, and the draw of \<open>Math.random()\<close>. A draw is a natural
  number \<open>r\<close>; \<open>Math.floor(Math.random() * n)\<close> is \<open>r mod n\<close>, which ranges over all
  indices below \<open>n\<close>, and is \<open>0\<close> when \<open>n = 0\<close>.
\<close>

record env =
  uuid1 :: string
  uuid2 :: string
  now1 :: nat
  now2 :: nat
  random :: nat

definition randomIndex :: "nat \<Rightarrow> nat \<Rightarrow> nat" where
  "randomIndex r n = (if n = 0 then 0 else r mod n)"

definition at_index :: "'a list \<Rightarrow> nat \<Rightarrow> 'a option" where
  \<comment> \<open>\<open>xs[i]\<close>: \<open>undefined\<close> (here \<open>None\<close>) out of range.\<close>
  "at_index xs i = (if i < length xs then Some (xs ! i) else None)"

definition detectCrisis :: "string \<Rightarrow> bool" where
  "detectCrisis message =
     (let lowerMessage = toLowerCase message
      in list_ex (\<lambda>keyword. str_includes lowerMessage keyword) crisisKeywords)"

definition responseCategory :: "string \<Rightarrow> string" where
  "responseCategory userMessage =
     (let lowerMessage = toLowerCase userMessage
      in if str_includes lowerMessage ''sorry'' \<or> str_includes lowerMessage ''understand''
            \<or> str_includes lowerMessage ''feel''
         then ''empathy''
         else if str_includes lowerMessage ''?'' then ''questions''
         else if str_includes lowerMessage ''should'' \<or> str_includes lowerMessage ''try''
            \<or> str_includes lowerMessage ''maybe''
         then ''solutions''
         else ''general'')"

definition generalResponses :: "string list" where
  "generalResponses =
    [''I appreciate you saying that.'',
     ''That's helpful to hear.'',
     ''Can you tell me more about that?'',
     ''I'm glad we're talking about this.'']"

definition possibleResponses :: "serverScenario \<Rightarrow> string \<Rightarrow> string list" where
  \<comment> \<open>An array is truthy even when empty, so any list the scenario has is taken.\<close>
  "possibleResponses scenario category =
     (case map_of (s_patterns scenario) category of
        Some responses \<Rightarrow> responses
      | None \<Rightarrow> generalResponses)"

definition generateAIResponse ::
  "conversation \<Rightarrow> string \<Rightarrow> nat \<Rightarrow> jsError + string option" where
  \<comment> \<open>Reading \<open>scenario.responses.patterns\<close> throws when the scenario has no \<open>responses\<close>;
      the value returned is \<open>undefined\<close> (\<open>None\<close>) when the list taken is empty.\<close>
  "generateAIResponse conversation userMessage r =
     (case conv_scenario conversation of
        Inherited name \<Rightarrow> Inl TypeError
      | Own scenario \<Rightarrow>
          (let rs = possibleResponses scenario (responseCategory userMessage)
           in Inr (at_index rs (randomIndex r (length rs)))))"

definition crisisText :: string where
  "crisisText = ''I notice you mentioned something concerning. Your safety is the most important thing right now. Please consider reaching out to crisis resources.''"

definition errorText :: string where
  \<comment> \<open>the reply of the error-handling middleware, sent with status 500 when a handler throws\<close>
  "errorText = ''Something went wrong!''"

definition startRoute ::
  "env \<Rightarrow> string \<Rightarrow> (string \<rightharpoonup> conversation) \<Rightarrow> httpResponse \<times> (string \<rightharpoonup> conversation)" where
  \<comment> \<open>\<open>POST /api/conversations/start\<close>. The conversation is stored before the reply is
      built; for an inherited name, building it throws at \<open>.responses.initial\<close>.\<close>
  "startRoute e scenarioId conversations =
     (case scenariosAt scenarioId of
        None \<Rightarrow> (\<lparr>status = 400, body = ErrorBody ''Invalid scenario ID''\<rparr>, conversations)
      | Some found \<Rightarrow>
          (let conversationId = uuid1 e;
               conversation = \<lparr>conv_id = conversationId, conv_scenarioId = scenarioId,
                 conv_scenario = found, conv_messages = [], conv_startTime = now1 e,
                 conv_state = ''active''\<rparr>;
               stored = conversations(conversationId \<mapsto> conversation)
           in case found of
                Own scenario \<Rightarrow>
                  (\<lparr>status = 200,
                    body = StartBody conversationId (s_title scenario) (s_description scenario)
                             (s_initialMessage scenario) (s_initial scenario)\<rparr>,
                   stored)
              | Inherited name \<Rightarrow> (\<lparr>status = 500, body = ErrorBody errorText\<rparr>, stored)))"

definition messageRoute ::
  "env \<Rightarrow> string \<Rightarrow> string option \<Rightarrow> (string \<rightharpoonup> conversation)
     \<Rightarrow> httpResponse \<times> (string \<rightharpoonup> conversation)" where
  \<comment> \<open>\<open>POST /api/conversations/:id/messages\<close>; the body's \<open>message\<close> may be missing. When
      \<open>generateAIResponse\<close> throws, the user message is already stored and the error
      middleware replies.\<close>
  "messageRoute e cid msg conversations =
     (case conversations cid of
        None \<Rightarrow> (\<lparr>status = 404, body = ErrorBody ''Conversation not found''\<rparr>, conversations)
      | Some conversation \<Rightarrow>
          (case msg of
             None \<Rightarrow> (\<lparr>status = 400, body = ErrorBody ''Message cannot be empty''\<rparr>, conversations)
           | Some message \<Rightarrow>
               if message = [] \<or> length (trim message) = 0
               then (\<lparr>status = 400, body = ErrorBody ''Message cannot be empty''\<rparr>, conversations)
               else
                 (let userMessage = \<lparr>m_id = uuid1 e, m_role = ''user'',
                        m_content = Some (trim message), m_timestamp = now1 e, m_isCrisis = None\<rparr>;
                      c1 = conversation\<lparr>conv_messages := conv_messages conversation @ [userMessage]\<rparr>
                  in if detectCrisis message
                     then
                       (let crisisResponse = \<lparr>m_id = uuid2 e, m_role = ''system'',
                              m_content = Some crisisText, m_timestamp = now2 e,
                              m_isCrisis = Some True\<rparr>;
                            c2 = c1\<lparr>conv_messages := conv_messages c1 @ [crisisResponse]\<rparr>
                        in (\<lparr>status = 200,
                             body = ReplyBody crisisResponse True
                               (Some \<lparr>national = ''988'', crisis = ''741741'',
                                      trevor = ''1-866-488-7386''\<rparr>)\<rparr>,
                            conversations(cid \<mapsto> c2)))
                     else
                       (case generateAIResponse c1 message (random e) of
                          Inl err \<Rightarrow>
                            (\<lparr>status = 500, body = ErrorBody errorText\<rparr>,
                             conversations(cid \<mapsto> c1))
                        | Inr aiResponse \<Rightarrow>
                            (let aiMessage = \<lparr>m_id = uuid2 e, m_role = ''ai'',
                                   m_content = aiResponse, m_timestamp = now2 e,
                                   m_isCrisis = None\<rparr>;
                                 c2 = c1\<lparr>conv_messages := conv_messages c1 @ [aiMessage]\<rparr>
                             in (\<lparr>status = 200, body = ReplyBody aiMessage False None\<rparr>,
                                 conversations(cid \<mapsto> c2)))))))"

section \<open>Script routes (the-rehearsal-ai-backend/src/api/routes/scripts.ts)\<close>

definition isLineTerminator :: "char \<Rightarrow> bool" where
  \<comment> \<open>What \<open>.\<close> refuses in a regular expression: LF and CR.\<close>
  "isLineTerminator c = (c = CHR 0x0A \<or> c = CHR 0x0D)"

function splitSpaces :: "string \<Rightarrow> string \<Rightarrow> string list" where
  \<comment> \<open>\<open>script.split(/\s+/)\<close>: the pieces between maximal runs of white space; the first
      argument holds the piece being read, reversed.\<close>
  "splitSpaces cur [] = [rev cur]"
| "splitSpaces cur (c # cs) =
     (if isWhiteSpace c then rev cur # splitSpaces [] (dropWhile isWhiteSpace cs)
      else splitSpaces (c # cur) cs)"
  by pat_completeness auto
termination
  by (relation "measure (\<lambda>(cur, s). length s)")
     (auto simp: length_dropWhile_le less_Suc_eq_le)

datatype atom = Lit char | Dot

definition regexOf :: "string \<Rightarrow> atom list" where
  \<comment> \<open>\<open>new RegExp(phrase, 'g')\<close> for the phrases of this file: \<open>.\<close> is the wildcard, every
      other character of theirs stands for itself.\<close>
  "regexOf phrase = map (\<lambda>c. if c = CHR ''.'' then Dot else Lit c) phrase"

fun matchesAt :: "atom list \<Rightarrow> string \<Rightarrow> bool" where
  "matchesAt [] s = True"
| "matchesAt (a # as) [] = False"
| "matchesAt (Lit c # as) (d # ds) = (c = d \<and> matchesAt as ds)"
| "matchesAt (Dot # as) (d # ds) = (\<not> isLineTerminator d \<and> matchesAt as ds)"

function countMatches :: "atom list \<Rightarrow> string \<Rightarrow> nat" where
  \<comment> \<open>\<open>(s.match(re) || []).length\<close> for a global \<open>re\<close>: matches are taken left to right and
      do not overlap.\<close>
  "countMatches p [] = (if p = [] then 1 else 0)"
| "countMatches p (c # cs) =
     (if p = [] then 1 + countMatches p cs
      else if matchesAt p (c # cs) then 1 + countMatches p (drop (length p) (c # cs))
      else countMatches p cs)"
  by pat_completeness auto
termination
  by (relation "measure (\<lambda>(p, s). length s)") auto

definition phraseBonus :: "nat \<Rightarrow> string list \<Rightarrow> string \<Rightarrow> nat" where
  \<comment> \<open>One \<open>forEach\<close> loop: each phrase adds its match count in the lower-cased script times
      the weight.\<close>
  "phraseBonus weight phrases script =
     sum_list (map (\<lambda>phrase. countMatches (regexOf phrase) (toLowerCase script) * weight) phrases)"

definition awkwardPhrases :: "string list" where
  "awkwardPhrases = [''um'', ''uh'', ''so...'', ''actually'', ''interesting'']"

definition preparationWords :: "string list" where
  "preparationWords = [''plan'', ''strategy'', ''calculated'', ''rehearse'', ''practice'']"

definition statisticsWords :: "string list" where
  "statisticsWords = [''percent'', ''%'', ''study'', ''research'', ''data'']"

definition calculateNathanLevel :: "string \<Rightarrow> string list \<Rightarrow> nat" where
  "calculateNathanLevel script enhancements =
     (let level0 = 20;
          wordCount = length (splitSpaces [] script);
          level1 = level0 + min 20 (wordCount div 50);
          level2 = level1 + phraseBonus 2 awkwardPhrases script;
          level3 = level2 + phraseBonus 3 preparationWords script;
          level4 = level3 + phraseBonus 4 statisticsWords script;
          level5 = level4 + length enhancements * 5;
          level6 = level5 + (if str_includes script ''flowchart'' \<or> str_includes script ''diagram''
                             then 10 else 0);
          level7 = level6 + (if str_includes script ''replica'' \<or> str_includes script ''build''
                             then 12 else 0);
          level8 = level7 + (if str_includes script ''147'' \<or> str_includes script ''73''
                             then 8 else 0)
      in min 100 level8)"

record script =
  sc_id :: string
  sc_userId :: string
  sc_title :: string
  sc_originalScript :: string
  sc_enhancedScript :: "string option"
  sc_enhancements :: "string list"
  sc_nathanLevel :: nat
  sc_draftNumber :: nat
  sc_productionNotes :: "string list"
  sc_storyboardFrames :: "(string \<times> string) list"
  sc_updatedAt :: nat



datatype routeError = VALIDATION_ERROR | SCRIPT_NOT_FOUND

fun statusCode :: "routeError \<Rightarrow> nat" where
  "statusCode VALIDATION_ERROR = 400"
| "statusCode SCRIPT_NOT_FOUND = 404"




section \<open>The analysis-response parser (AIService.parseAnalysisResponse)\<close>

text \<open>
  \<open>response.match(re)\<close> for a regular expression without the global flag looks for the
  leftmost position at which \<open>re\<close> matches, and at that position takes the first way of
  matching in the order of the backtracking search. The expressions of the parser are
  written out in that order: a label; \<open>\s*\<close>, greedy, handing white space back one
  character at a time while what follows fails; then the capture.
\<close>

definition LF :: char where
  "LF = CHR 0x0A"

definition isDigit :: "char \<Rightarrow> bool" where
  "isDigit c = (let n = (of_char c :: nat) in 48 \<le> n \<and> n \<le> 57)"

definition parseInt :: "string \<Rightarrow> nat" where
  \<comment> \<open>\<open>parseInt\<close> of a captured \<open>\d+\<close>: its decimal value (exact in a JavaScript number up to
      fifteen digits).\<close>
  "parseInt ds = foldl (\<lambda>n c. 10 * n + (of_char c - 48)) 0 ds"

fun firstMatch :: "(string \<Rightarrow> 'a option) \<Rightarrow> string \<Rightarrow> 'a option" where
  "firstMatch f [] = f []"
| "firstMatch f (c # cs) = (case f (c # cs) of Some r \<Rightarrow> Some r | None \<Rightarrow> firstMatch f cs)"

fun backtrack :: "(string \<Rightarrow> 'a option) \<Rightarrow> string \<Rightarrow> nat \<Rightarrow> 'a option" where
  "backtrack cont r 0 = cont r"
| "backtrack cont r (Suc j) =
     (case cont (drop (Suc j) r) of Some x \<Rightarrow> Some x | None \<Rightarrow> backtrack cont r j)"

definition spaces :: "(string \<Rightarrow> 'a option) \<Rightarrow> string \<Rightarrow> 'a option" where
  \<comment> \<open>\<open>\s*\<close> followed by \<open>cont\<close>\<close>
  "spaces cont r = backtrack cont r (length (takeWhile isWhiteSpace r))"

definition labelled :: "string \<Rightarrow> (string \<Rightarrow> 'a option) \<Rightarrow> string \<Rightarrow> 'a option" where
  \<comment> \<open>\<open>LABEL:\s*\<close> followed by \<open>cont\<close>, tried at the start of \<open>s\<close>\<close>
  "labelled label cont s =
     (if prefix label s then spaces cont (drop (length label) s) else None)"

definition digits :: "string \<Rightarrow> string option" where
  \<comment> \<open>\<open>(\d+)\<close> at the end of the expression: the longest run of digits, at least one\<close>
  "digits r = (let ds = takeWhile isDigit r in if ds = [] then None else Some ds)"

definition scoreMatch :: "string \<Rightarrow> string \<Rightarrow> string option" where
  \<comment> \<open>\<open>response.match(/LABEL:\s*(\d+)/)\<close>, giving group 1\<close>
  "scoreMatch label response = firstMatch (labelled label digits) response"

definition lookahead :: "string \<Rightarrow> bool" where
  \<comment> \<open>\<open>(?=\n\n|\nIMPROVEMENT_SUGGESTIONS|$)\<close>\<close>
  "lookahead r = (prefix [LF, LF] r \<or> prefix (LF # ''IMPROVEMENT_SUGGESTIONS'') r \<or> r = [])"

fun lazyDots :: "string \<Rightarrow> string \<Rightarrow> string option" where
  \<comment> \<open>\<open>(.*?)\<close> before the lookahead: the capture (first argument, reversed) grows by one
      character that is no line terminator until the lookahead holds.\<close>
  "lazyDots acc [] = (if lookahead [] then Some (rev acc) else None)"
| "lazyDots acc (c # cs) =
     (if lookahead (c # cs) then Some (rev acc)
      else if isLineTerminator c then None
      else lazyDots (c # acc) cs)"

definition observationMatch :: "string \<Rightarrow> string option" where
  \<comment> \<open>\<open>response.match(/NATHAN_OBSERVATION:\s*(.*?)(?=\n\n|\nIMPROVEMENT_SUGGESTIONS|$)/)\<close>\<close>
  "observationMatch response = firstMatch (labelled ''NATHAN_OBSERVATION:'' (lazyDots [])) response"

definition dashLine :: "string \<Rightarrow> (string \<times> string) option" where
  \<comment> \<open>One round of \<open>(?:\n?-.*)\<close>: the text it takes and what is left. Without the optional
      line feed the round would have to start with a dash at that line feed, so no second
      way exists.\<close>
  "dashLine r =
     (let (nl, r1) = (case r of [] \<Rightarrow> ([], r) | c # cs \<Rightarrow> if c = LF then ([LF], cs) else ([], r))
      in case r1 of
           [] \<Rightarrow> None
         | c # cs \<Rightarrow>
             if c = CHR ''-''
             then Some (nl @ [c] @ takeWhile (\<lambda>x. \<not> isLineTerminator x) cs,
                        dropWhile (\<lambda>x. \<not> isLineTerminator x) cs)
             else None)"

fun dashLines :: "nat \<Rightarrow> string \<Rightarrow> string" where
  \<comment> \<open>The further rounds of the greedy \<open>+\<close>; every round takes at least the dash, so
      \<open>length r\<close> rounds are enough.\<close>
  "dashLines 0 r = []"
| "dashLines (Suc n) r = (case dashLine r of None \<Rightarrow> [] | Some (t, r') \<Rightarrow> t @ dashLines n r')"

definition dashGroup :: "string \<Rightarrow> string option" where
  \<comment> \<open>\<open>((?:\n?-.*)+)\<close> at the end of the expression\<close>
  "dashGroup r =
     (case dashLine r of None \<Rightarrow> None | Some (t, r') \<Rightarrow> Some (t @ dashLines (length r') r'))"

definition suggestionsMatch :: "string \<Rightarrow> string option" where
  \<comment> \<open>\<open>response.match(/IMPROVEMENT_SUGGESTIONS:\s*((?:\n?-.*)+)/)\<close>\<close>
  "suggestionsMatch response = firstMatch (labelled ''IMPROVEMENT_SUGGESTIONS:'' dashGroup) response"

fun splitOn :: "char \<Rightarrow> string \<Rightarrow> string \<Rightarrow> string list" where
  \<comment> \<open>\<open>s.split(sep)\<close> for a one-character separator; the second argument holds the piece
      being read, reversed.\<close>
  "splitOn sep cur [] = [rev cur]"
| "splitOn sep cur (c # cs) =
     (if c = sep then rev cur # splitOn sep [] cs else splitOn sep (c # cur) cs)"

definition startsWithDash :: "string \<Rightarrow> bool" where
  "startsWithDash s = (case s of [] \<Rightarrow> False | c # cs \<Rightarrow> c = CHR ''-'')"

definition stripDash :: "string \<Rightarrow> string" where
  \<comment> \<open>\<open>line.replace(/^-\s*/, '')\<close>\<close>
  "stripDash line =
     (case line of [] \<Rightarrow> [] | c # cs \<Rightarrow> if c = CHR ''-'' then dropWhile isWhiteSpace cs else line)"

record breakdown =
  dialogueQuality :: nat
  preparationLevel :: nat
  awkwardnessAuthenticity :: nat
  statisticalCredibility :: nat

record analysis =
  awkwardnessScore :: nat
  complexityRating :: nat
  optimalityScore :: nat
  nathanObservation :: string
  improvementSuggestions :: "string list"
  breakdown :: breakdown

definition defaultValues :: analysis where
  "defaultValues = \<lparr>
     awkwardnessScore = 73,
     complexityRating = 67,
     optimalityScore = 81,
     nathanObservation = ''This script shows promise but needs more statistical backing and at least 47 additional rehearsals.'',
     improvementSuggestions =
       [''Add more specific timing for awkward pauses'',
        ''Include backup dialogue for when the first option fails'',
        ''Consider building a scale model of the location''],
     breakdown = \<lparr>dialogueQuality = 75, preparationLevel = 68,
       awkwardnessAuthenticity = 82, statisticalCredibility = 45\<rparr>\<rparr>"

definition score :: "string option \<Rightarrow> nat \<Rightarrow> nat" where
  \<comment> \<open>\<open>m ? parseInt(m[1]) : dflt\<close>\<close>
  "score m dflt = (case m of Some ds \<Rightarrow> parseInt ds | None \<Rightarrow> dflt)"

definition parseAnalysisResponse :: "string \<Rightarrow> analysis" where
  \<comment> \<open>Nothing inside the \<open>try\<close> block throws on a string, so the \<open>catch\<close> branch is never taken.\<close>
  "parseAnalysisResponse response =
     (let awkwardnessMatch = scoreMatch ''AWKWARDNESS_SCORE:'' response;
          complexityMatch = scoreMatch ''COMPLEXITY_RATING:'' response;
          optimalityMatch = scoreMatch ''OPTIMALITY_SCORE:'' response;
          dialogueMatch = scoreMatch ''DIALOGUE_QUALITY:'' response;
          preparationMatch = scoreMatch ''PREPARATION_LEVEL:'' response;
          awkwardnessAuthMatch = scoreMatch ''AWKWARDNESS_AUTHENTICITY:'' response;
          statisticalMatch = scoreMatch ''STATISTICAL_CREDIBILITY:'' response;
          observationMatch = observationMatch response;
          suggestionsMatch = suggestionsMatch response;
          suggestions =
            (case suggestionsMatch of
               Some captured \<Rightarrow>
                 map (\<lambda>line. trim (stripDash line))
                   (filter (\<lambda>line. startsWithDash (trim line)) (splitOn LF [] captured))
             | None \<Rightarrow> improvementSuggestions defaultValues)
      in \<lparr>awkwardnessScore = score awkwardnessMatch (awkwardnessScore defaultValues),
          complexityRating = score complexityMatch (complexityRating defaultValues),
          optimalityScore = score optimalityMatch (optimalityScore defaultValues),
          nathanObservation =
            (case observationMatch of
               Some captured \<Rightarrow> trim captured
             | None \<Rightarrow> nathanObservation defaultValues),
          improvementSuggestions = take 5 suggestions,
          breakdown =
            \<lparr>dialogueQuality = score dialogueMatch (dialogueQuality (breakdown defaultValues)),
             preparationLevel = score preparationMatch (preparationLevel (breakdown defaultValues)),
             awkwardnessAuthenticity =
               score awkwardnessAuthMatch (awkwardnessAuthenticity (breakdown defaultValues)),
             statisticalCredibility =
               score statisticalMatch (statisticalCredibility (breakdown defaultValues))\<rparr>\<rparr>)"

text \<open>
  The reply the prompt of \<open>analyzeScript\<close> asks for (``Provide analysis in this exact
  format''), with its bracketed placeholders filled in: seven score lines, the observation
  paragraph, and the suggestions, each on a line of its own that starts with a dash.
\<close>

definition dashed :: "string list \<Rightarrow> string" where
  "dashed ss = concat (map (\<lambda>s. LF # ''- '' @ s) ss)"

definition wellFormedBlock ::
  "string \<Rightarrow> string \<Rightarrow> string \<Rightarrow> string \<Rightarrow> string \<Rightarrow> string \<Rightarrow> string
     \<Rightarrow> string \<Rightarrow> string list \<Rightarrow> string" where
  "wellFormedBlock awk cpx opt dlg prep auth stat obs sugg =
     ''AWKWARDNESS_SCORE: '' @ awk @ [LF] @
     ''COMPLEXITY_RATING: '' @ cpx @ [LF] @
     ''OPTIMALITY_SCORE: '' @ opt @ [LF, LF] @
     ''DIALOGUE_QUALITY: '' @ dlg @ [LF] @
     ''PREPARATION_LEVEL: '' @ prep @ [LF] @
     ''AWKWARDNESS_AUTHENTICITY: '' @ auth @ [LF] @
     ''STATISTICAL_CREDIBILITY: '' @ stat @ [LF, LF] @
     ''NATHAN_OBSERVATION: '' @ obs @ [LF, LF] @
     ''IMPROVEMENT_SUGGESTIONS:'' @ dashed sugg"

definition scoreText :: "string \<Rightarrow> bool" where
  \<comment> \<open>a score as the prompt asks for it, 0 to 100 written in digits: one to three digits\<close>
  "scoreText ds = (ds \<noteq> [] \<and> length ds \<le> 3 \<and> list_all isDigit ds)"

definition lineText :: "string \<Rightarrow> bool" where
  "lineText t = list_all (\<lambda>c. \<not> isLineTerminator c) t"

section \<open>Concrete inputs\<close>

definition exampleChoiceLost :: choice where
  "exampleChoiceLost = \<lparr>choice_text = ''Tell them to cheer up'',
     choice_impact = Some [(''empathy'', - 100), (''trust'', 40), (''effectiveness'', 3)],
     choice_next = Some ''nowhere'', choice_isEnd = False\<rparr>"

definition exampleChoiceSuccess :: choice where
  "exampleChoiceSuccess = \<lparr>choice_text = ''Thank them for listening'',
     choice_impact = Some [(''trust'', 2)],
     choice_next = Some ''success'', choice_isEnd = False\<rparr>"

definition exampleScene :: scene where
  "exampleScene = \<lparr>scene_id = ''intro'', scene_text = ''You meet Alex for coffee.'',
     scene_dialogue = Some ''Hey.'', scene_choices = [exampleChoiceLost, exampleChoiceSuccess],
     scene_isBreakthrough = False, scene_isEnd = False, scene_outcome = None\<rparr>"

definition exampleScenario :: scenario where
  "exampleScenario = \<lparr>scenario_title = ''Checking on a Friend'',
     scenario_description = ''Practice reaching out.'', scenes = [exampleScene]\<rparr>"

definition exampleState :: appState where
  "exampleState = \<lparr>currentScenario = Some ''demo'', currentScene = ''intro'',
     playerStats = [''empathy'' \<mapsto> Num 5, ''trust'' \<mapsto> Num 5, ''effectiveness'' \<mapsto> Num 5],
     conversationHistory = [], breakthroughs = [], rehearsalAttempts = Map.empty,
     scenarios = [''demo'' \<mapsto> exampleScenario]\<rparr>"

definition exampleEnv :: env where
  "exampleEnv = \<lparr>uuid1 = ''u-1'', uuid2 = ''u-2'', now1 = 100, now2 = 101, random = 3\<rparr>"

definition exampleConversation :: conversation where
  "exampleConversation = \<lparr>conv_id = ''c-1'', conv_scenarioId = ''friend-checkin'',
     conv_scenario = Own scenario_friendCheckin, conv_messages = [], conv_startTime = 50,
     conv_state = ''active''\<rparr>"

definition exampleConversationTherapy :: conversation where
  "exampleConversationTherapy = \<lparr>conv_id = ''c-2'', conv_scenarioId = ''therapy-suggestion'',
     conv_scenario = Own scenario_therapySuggestion, conv_messages = [], conv_startTime = 60,
     conv_state = ''active''\<rparr>"

definition exampleConversationCrisis :: conversation where
  "exampleConversationCrisis = \<lparr>conv_id = ''c-3'', conv_scenarioId = ''crisis-response'',
     conv_scenario = Own scenario_crisisResponse, conv_messages = [], conv_startTime = 70,
     conv_state = ''active''\<rparr>"

definition exampleConversations :: "string \<rightharpoonup> conversation" where
  "exampleConversations =
     [''c-1'' \<mapsto> exampleConversation, ''c-2'' \<mapsto> exampleConversationTherapy,
      ''c-3'' \<mapsto> exampleConversationCrisis]"



definition startEnv4 :: env where
  "startEnv4 = \<lparr>uuid1 = ''c-4'', uuid2 = [], now1 = 90, now2 = 90, random = 0\<rparr>"

definition exampleConversationInherited :: conversation where
  \<comment> \<open>what a start request for the id \<open>constructor\<close> stores\<close>
  "exampleConversationInherited = \<lparr>conv_id = ''c-4'', conv_scenarioId = ''constructor'',
     conv_scenario = Inherited ''constructor'', conv_messages = [], conv_startTime = 90,
     conv_state = ''active''\<rparr>"





definition exampleReply :: string where
  "exampleReply = wellFormedBlock ''85'' ''70'' ''92'' ''64'' ''100'' ''7'' ''051''
     ''The pauses are well documented. I would rehearse it 47 more times.''
     [''Time each pause with a stopwatch'', ''Build a replica of the cafe'', ''Hire an actor'']"

definition exampleGarbledReply :: string where
  "exampleGarbledReply = ''Awkwardness score: high. COMPLEXITY_RATING: about 70. Nathan liked it.''"

definition exampleApology :: string where
  "exampleApology = ''I am sorry, I cannot analyze this script.''"

section \<open>Facts about strings\<close>

lemma toLowerChar_whitespace: "isWhiteSpace c \<Longrightarrow> toLowerChar c = c"
  by (auto simp: isWhiteSpace_def toLowerChar_def Let_def)

lemma trim_eq_Nil_iff: "trim s = [] \<longleftrightarrow> (\<forall>c\<in>set s. isWhiteSpace c)"
proof
  assume "trim s = []"
  then have "dropWhile isWhiteSpace (rev (dropWhile isWhiteSpace s)) = []"
    by (simp add: trim_def)
  then have a: "\<forall>c\<in>set (dropWhile isWhiteSpace s). isWhiteSpace c"
    by simp
  have "dropWhile isWhiteSpace s = []"
  proof (cases "dropWhile isWhiteSpace s")
    case Nil
    then show ?thesis .
  next
    case (Cons x xs)
    then have "\<not> isWhiteSpace x" using hd_dropWhile[of isWhiteSpace s] by simp
    with a Cons show ?thesis by simp
  qed
  then show "\<forall>c\<in>set s. isWhiteSpace c" by simp
next
  assume "\<forall>c\<in>set s. isWhiteSpace c"
  then show "trim s = []" by (auto simp: trim_def dest: set_dropWhileD)
qed

lemma str_includes_set: "str_includes s k \<Longrightarrow> set k \<subseteq> set s"
proof (induction s)
  case Nil
  then show ?case by simp
next
  case (Cons c cs)
  then show ?case using set_mono_prefix[of k "c # cs"] by auto
qed

section \<open>The dialogue engine: stats, unresolved references, history\<close>

lemma clampStat_addStat_inRange: "inRange cur \<Longrightarrow> inRange (Some (clampStat (addStat cur v)))"
  by (auto simp: inRange_def clampStat_def addStat_def split: option.splits jsnum.splits)

lemma applyImpact_inRange: "inRange (stats k) \<Longrightarrow> inRange (applyImpact imp stats k)"
  unfolding applyImpact_def
proof (induction imp arbitrary: stats)
  case Nil
  then show ?case by simp
next
  case (Cons p imp)
  obtain stat v where p: "p = (stat, v)" by (cases p)
  have "inRange ((stats(stat \<mapsto> clampStat (addStat (stats stat) v))) k)"
    using Cons.prems by (auto simp: clampStat_addStat_inRange)
  then show ?case using Cons.IH p by simp
qed

lemma playerStats_makeChoice:
  "playerStats (snd (makeChoice ch now s)) =
     (case choice_impact ch of None \<Rightarrow> playerStats s | Some imp \<Rightarrow> applyImpact imp (playerStats s))"
  by (simp add: makeChoice_def Let_def split: option.splits)

text \<open>
  Claim C1. Whatever the deltas of the selected choice, \<open>makeChoice\<close> leaves each of
  empathy, trust and effectiveness a number within 0..10 when it was one before.
\<close>

theorem makeChoice_stats_in_range:
  assumes "inRange (playerStats s ''empathy'')"
    and "inRange (playerStats s ''trust'')"
    and "inRange (playerStats s ''effectiveness'')"
  shows "inRange (playerStats (snd (makeChoice ch now s)) ''empathy'') \<and>
         inRange (playerStats (snd (makeChoice ch now s)) ''trust'') \<and>
         inRange (playerStats (snd (makeChoice ch now s)) ''effectiveness'')"
  using assms by (simp add: playerStats_makeChoice applyImpact_inRange split: option.splits)

theorem makeChoice_stats_in_range_witness:
  "inRange (playerStats exampleState ''empathy'') \<and>
   inRange (playerStats exampleState ''trust'') \<and>
   inRange (playerStats exampleState ''effectiveness'') \<and>
   playerStats (snd (makeChoice exampleChoiceLost 7 exampleState)) ''empathy'' = Some (Num 0) \<and>
   playerStats (snd (makeChoice exampleChoiceLost 7 exampleState)) ''trust'' = Some (Num 10) \<and>
   inRange (playerStats (snd (makeChoice exampleChoiceLost 7 exampleState)) ''empathy'') \<and>
   inRange (playerStats (snd (makeChoice exampleChoiceLost 7 exampleState)) ''trust'') \<and>
   inRange (playerStats (snd (makeChoice exampleChoiceLost 7 exampleState)) ''effectiveness'')"
proof -
  have h1: "inRange (playerStats exampleState ''empathy'')" by code_simp
  have h2: "inRange (playerStats exampleState ''trust'')" by code_simp
  have h3: "inRange (playerStats exampleState ''effectiveness'')" by code_simp
  have v1: "playerStats (snd (makeChoice exampleChoiceLost 7 exampleState)) ''empathy'' = Some (Num 0)"
    by code_simp
  have v2: "playerStats (snd (makeChoice exampleChoiceLost 7 exampleState)) ''trust'' = Some (Num 10)"
    by code_simp
  from makeChoice_stats_in_range[OF h1 h2 h3, of exampleChoiceLost 7] h1 h2 h3 v1 v2
  show ?thesis by blast
qed

lemma playerStats_displayScene:
  "playerStats (snd (displayScene sc now s)) = playerStats s"
  by (simp add: displayScene_def recordBreakthrough_def Let_def
      split: option.splits completion.splits prod.splits if_splits)

lemma playerStats_endConversation:
  "playerStats (snd (endConversation b s)) = playerStats s"
  by (simp add: endConversation_def split: option.splits if_splits)

lemma playerStats_step_inRange:
  assumes "inRange (playerStats s k)"
  shows "inRange (playerStats (step ev s) k)"
proof (cases ev)
  case (Choose ch now)
  then show ?thesis
    using assms by (simp add: playerStats_makeChoice applyImpact_inRange split: option.splits)
next
  case (Fire t now)
  then show ?thesis
    using assms by (cases t) (simp_all add: playerStats_displayScene playerStats_endConversation)
qed

text \<open>
  The range is an invariant of a whole run: no event of the engine takes a stat out of it.
\<close>

lemma playerStats_run_inRange:
  "inRange (playerStats s k) \<Longrightarrow> inRange (playerStats (run evs s) k)"
  unfolding run_def
  by (induction evs arbitrary: s) (simp_all add: playerStats_step_inRange)

lemma lookupScenario_makeChoice_pre:
  "lookupScenario (case imp of None \<Rightarrow> s\<lparr>conversationHistory := h\<rparr>
                   | Some i \<Rightarrow> s\<lparr>conversationHistory := h, playerStats := f i\<rparr>) = lookupScenario s"
  by (simp add: lookupScenario_def split: option.splits)

lemma findScene_None_iff:
  "findScene scenario nxt = None \<longleftrightarrow> nxt \<notin> Some ` scene_id ` set (scenes scenario)"
  by (auto simp: findScene_def find_None_iff)

text \<open>
  Claim C2, as stated, fails: a choice whose \<open>next\<close> is the sentinel \<open>success\<close> matches no
  scene id of the scenario, and \<open>makeChoice\<close> ends the conversation as a success.
\<close>

theorem makeChoice_unresolved_success_counterexample:
  "lookupScenario exampleState = Some exampleScenario \<and>
   findScene exampleScenario (choice_next exampleChoiceSuccess) = None \<and>
   fst (makeChoice exampleChoiceSuccess 7 exampleState) = (Returned, [EndConversation True]) \<and>
   fst (makeChoice exampleChoiceSuccess 7 exampleState) \<noteq> (Returned, [EndConversation False])"
  by code_simp

text \<open>
  Claim C2, amended. With a current scenario in place, a choice whose \<open>next\<close> matches no
  scene id makes \<open>makeChoice\<close> return without throwing and schedule \<open>endConversation\<close>:
  with \<open>isSuccess = true\<close> when \<open>next\<close> is \<open>success\<close> or the choice carries \<open>isEnd\<close>, and
  with \<open>isSuccess = false\<close> in every other case.
\<close>

theorem makeChoice_unresolved_next:
  assumes "lookupScenario s = Some scenario"
    and "choice_next ch \<notin> Some ` scene_id ` set (scenes scenario)"
  shows "fst (makeChoice ch now s) =
           (Returned, [EndConversation (choice_next ch = Some ''success'' \<or> choice_isEnd ch)])"
proof -
  have "findScene scenario (choice_next ch) = None"
    using assms(2) by (simp add: findScene_None_iff)
  then show ?thesis
    unfolding makeChoice_def Let_def
    by (simp add: lookupScenario_makeChoice_pre assms(1))
qed

theorem makeChoice_unresolved_next_witness:
  "lookupScenario exampleState = Some exampleScenario \<and>
   choice_next exampleChoiceLost \<notin> Some ` scene_id ` set (scenes exampleScenario) \<and>
   fst (makeChoice exampleChoiceLost 7 exampleState) = (Returned, [EndConversation False])"
proof -
  have h1: "lookupScenario exampleState = Some exampleScenario" by code_simp
  have h2: "choice_next exampleChoiceLost \<notin> Some ` scene_id ` set (scenes exampleScenario)"
    by code_simp
  have e: "(choice_next exampleChoiceLost = Some ''success'' \<or> choice_isEnd exampleChoiceLost) = False"
    by code_simp
  from makeChoice_unresolved_next[OF h1 h2, of 7] e h1 h2 show ?thesis by simp
qed

lemma history_makeChoice:
  "conversationHistory (snd (makeChoice ch now s)) = conversationHistory s @
     [\<lparr>h_scene = currentScene s, h_choice = choice_text ch,
       h_impact = choice_impact ch, h_timestamp = now\<rparr>]"
  by (simp add: makeChoice_def Let_def split: option.splits)

lemma history_displayScene:
  "conversationHistory (snd (displayScene sc now s)) = conversationHistory s"
  by (simp add: displayScene_def recordBreakthrough_def Let_def
      split: option.splits completion.splits prod.splits if_splits)

lemma history_endConversation:
  "conversationHistory (snd (endConversation b s)) = conversationHistory s"
  by (simp add: endConversation_def split: option.splits if_splits)

lemma history_step:
  "conversationHistory (step ev s) = conversationHistory s @
     (case ev of
        Choose ch now \<Rightarrow> [\<lparr>h_scene = currentScene s, h_choice = choice_text ch,
                          h_impact = choice_impact ch, h_timestamp = now\<rparr>]
      | Fire t now \<Rightarrow> [])"
proof (cases ev)
  case (Choose ch now)
  then show ?thesis by (simp add: history_makeChoice)
next
  case (Fire t now)
  then show ?thesis
    by (cases t) (simp_all add: history_displayScene history_endConversation)
qed

lemma history_run:
  "prefix (conversationHistory s) (conversationHistory (run evs s)) \<and>
   length (conversationHistory (run evs s)) =
     length (conversationHistory s) + length (filter isChoose evs)"
  unfolding run_def
proof (induction evs arbitrary: s)
  case Nil
  then show ?case by simp
next
  case (Cons ev evs)
  have p: "prefix (conversationHistory s) (conversationHistory (step ev s))"
    by (simp add: history_step)
  have l: "length (conversationHistory (step ev s)) =
             length (conversationHistory s) + (if isChoose ev then 1 else 0)"
    using history_step[of ev s] by (cases ev) simp_all
  from Cons.IH[of "step ev s"] p l show ?case
    by (auto intro: prefix_order.trans)
qed

lemma history_selectScenario:
  "scenarios s sid = Some sc \<Longrightarrow> conversationHistory (snd (selectScenario sid now s)) = []"
  by (simp add: selectScenario_def resetForScenario_def startConversation_def
      history_displayScene split: option.splits list.splits)

text \<open>
  Claim C4. Each \<open>makeChoice\<close> appends exactly one record (scene, choice, impact, timestamp)
  to \<open>conversationHistory\<close>; over any sequence of engine events (choices made and timers
  fired) the earlier history stays a prefix of the later one and grows by the number of
  choices made, so that in a run begun by \<open>selectScenario\<close> its length is that number.
\<close>

theorem conversationHistory_append_only:
  "conversationHistory (snd (makeChoice ch now s)) = conversationHistory s @
     [\<lparr>h_scene = currentScene s, h_choice = choice_text ch,
       h_impact = choice_impact ch, h_timestamp = now\<rparr>]
   \<and> prefix (conversationHistory s) (conversationHistory (run evs s))
   \<and> length (conversationHistory (run evs s)) =
       length (conversationHistory s) + length (filter isChoose evs)
   \<and> (scenarios s sid \<noteq> None \<longrightarrow>
       length (conversationHistory (run evs (snd (selectScenario sid now0 s)))) =
         length (filter isChoose evs))"
proof -
  have "scenarios s sid \<noteq> None \<longrightarrow>
       length (conversationHistory (run evs (snd (selectScenario sid now0 s)))) =
         length (filter isChoose evs)"
    using history_run[of "snd (selectScenario sid now0 s)" evs]
    by (auto simp: history_selectScenario)
  then show ?thesis using history_makeChoice[of ch now s] history_run[of s evs] by simp
qed

theorem conversationHistory_append_only_witness:
  "scenarios exampleState ''demo'' \<noteq> None \<and>
   length (filter isChoose
     [Choose exampleChoiceSuccess 1, Fire (DisplayScene exampleScene) 2,
      Choose exampleChoiceLost 3, Fire (EndConversation False) 4]) = 2 \<and>
   length (conversationHistory
     (run [Choose exampleChoiceSuccess 1, Fire (DisplayScene exampleScene) 2,
           Choose exampleChoiceLost 3, Fire (EndConversation False) 4]
        (snd (selectScenario ''demo'' 0 exampleState)))) = 2"
proof -
  have h: "scenarios exampleState ''demo'' \<noteq> None" by code_simp
  have n: "length (filter isChoose
     [Choose exampleChoiceSuccess 1, Fire (DisplayScene exampleScene) 2,
      Choose exampleChoiceLost 3, Fire (EndConversation False) 4]) = 2" by simp
  from conversationHistory_append_only[of exampleChoiceLost 0 exampleState
      "[Choose exampleChoiceSuccess 1, Fire (DisplayScene exampleScene) 2,
        Choose exampleChoiceLost 3, Fire (EndConversation False) 4]" "''demo''" 0] h n
  show ?thesis by simp
qed

section \<open>The conversation server: crisis detection, blank messages, the heuristic responder\<close>

lemma crisisKeywords_letter:
  "k \<in> set crisisKeywords \<Longrightarrow> \<exists>c\<in>set k. \<not> isWhiteSpace c"
  by (auto simp: crisisKeywords_def isWhiteSpace_def)

lemma crisis_not_blank:
  assumes "k \<in> set crisisKeywords" and "str_includes (toLowerCase message) k"
  shows "trim message \<noteq> []"
proof -
  obtain c where c: "c \<in> set k" "\<not> isWhiteSpace c"
    using crisisKeywords_letter[OF assms(1)] by blast
  have "c \<in> set (toLowerCase message)" using str_includes_set[OF assms(2)] c(1) by blast
  then obtain d where d: "d \<in> set message" "toLowerChar d = c"
    by (auto simp: toLowerCase_def)
  have "\<not> isWhiteSpace d" using toLowerChar_whitespace[of d] d(2) c(2) by auto
  with d(1) show ?thesis by (auto simp: trim_eq_Nil_iff)
qed

lemma detectCrisis_iff:
  "detectCrisis message \<longleftrightarrow> (\<exists>k\<in>set crisisKeywords. str_includes (toLowerCase message) k)"
  by (simp add: detectCrisis_def list_ex_iff)

text \<open>
  Claim C3. For a message to an existing conversation whose lower-cased text contains a
  crisis keyword, the route answers 200 with the fixed safety message and the resource
  identifiers 988, 741741 and 1-866-488-7386, stores the user message and that safety
  message only, and its outcome is the same for every random draw: the heuristic
  responder, the only reader of the draw, has no part in it.
\<close>

theorem crisis_short_circuit:
  assumes "conversations cid = Some conversation"
    and "k \<in> set crisisKeywords"
    and "str_includes (toLowerCase message) k"
  shows "messageRoute e cid (Some message) conversations =
          (\<lparr>status = 200,
            body = ReplyBody
              \<lparr>m_id = uuid2 e, m_role = ''system'', m_content = Some crisisText,
                m_timestamp = now2 e, m_isCrisis = Some True\<rparr>
              True
              (Some \<lparr>national = ''988'', crisis = ''741741'', trevor = ''1-866-488-7386''\<rparr>)\<rparr>,
           conversations(cid \<mapsto> conversation\<lparr>conv_messages := conv_messages conversation @
             [\<lparr>m_id = uuid1 e, m_role = ''user'', m_content = Some (trim message),
               m_timestamp = now1 e, m_isCrisis = None\<rparr>,
              \<lparr>m_id = uuid2 e, m_role = ''system'', m_content = Some crisisText,
                m_timestamp = now2 e, m_isCrisis = Some True\<rparr>]\<rparr>))
        \<and> messageRoute (e\<lparr>random := r\<rparr>) cid (Some message) conversations =
            messageRoute e cid (Some message) conversations"
proof -
  have t: "trim message \<noteq> []" using crisis_not_blank[OF assms(2,3)] .
  then have m: "message \<noteq> []" by (auto simp: trim_def)
  have d: "detectCrisis message" using assms(2,3) by (auto simp: detectCrisis_iff)
  show ?thesis using t m d assms(1)
    by (simp add: messageRoute_def Let_def)
qed

theorem crisis_short_circuit_witness:
  "exampleConversations ''c-1'' = Some exampleConversation \<and>
   ''hopeless'' \<in> set crisisKeywords \<and>
   str_includes (toLowerCase ''I feel HOPELESS today'') ''hopeless'' \<and>
   fst (messageRoute exampleEnv ''c-1'' (Some ''I feel HOPELESS today'') exampleConversations) =
     \<lparr>status = 200,
      body = ReplyBody
        \<lparr>m_id = uuid2 exampleEnv, m_role = ''system'', m_content = Some crisisText,
          m_timestamp = now2 exampleEnv, m_isCrisis = Some True\<rparr>
        True
        (Some \<lparr>national = ''988'', crisis = ''741741'', trevor = ''1-866-488-7386''\<rparr>)\<rparr>"
proof -
  have h1: "exampleConversations ''c-1'' = Some exampleConversation" by code_simp
  have h2: "''hopeless'' \<in> set crisisKeywords" by code_simp
  have h3: "str_includes (toLowerCase ''I feel HOPELESS today'') ''hopeless''" by code_simp
  from crisis_short_circuit[where conversations = exampleConversations and cid = "''c-1''"
      and e = exampleEnv and r = 0, OF h1 h2 h3] h1 h2 h3
  show ?thesis by simp
qed

text \<open>
  Claim C9. For an existing conversation, a message that is empty or made of white space
  only (or is missing from the body) is answered with status 400, and the stored
  conversations, so also this conversation's message list, are left as they were.
\<close>

theorem blank_message_rejected:
  assumes "conversations cid = Some conversation"
    and "\<forall>c\<in>set message. isWhiteSpace c"
  shows "status (fst (messageRoute e cid (Some message) conversations)) = 400
       \<and> snd (messageRoute e cid (Some message) conversations) = conversations
       \<and> status (fst (messageRoute e cid None conversations)) = 400
       \<and> snd (messageRoute e cid None conversations) = conversations"
proof -
  have "trim message = []" using assms(2) by (simp add: trim_eq_Nil_iff)
  then show ?thesis using assms(1) by (simp add: messageRoute_def)
qed

theorem blank_message_rejected_witness:
  "exampleConversations ''c-1'' = Some exampleConversation \<and>
   list_all isWhiteSpace [CHR '' '', CHR 0x09, CHR 0x0A] \<and>
   status (fst (messageRoute exampleEnv ''c-1'' (Some [CHR '' '', CHR 0x09, CHR 0x0A])
     exampleConversations)) = 400 \<and>
   snd (messageRoute exampleEnv ''c-1'' (Some [CHR '' '', CHR 0x09, CHR 0x0A])
     exampleConversations) = exampleConversations"
proof -
  have h1: "exampleConversations ''c-1'' = Some exampleConversation" by code_simp
  have h2: "\<forall>c\<in>set [CHR '' '', CHR 0x09, CHR 0x0A]. isWhiteSpace c"
    by (simp add: isWhiteSpace_def)
  have h3: "list_all isWhiteSpace [CHR '' '', CHR 0x09, CHR 0x0A]"
    by (simp add: isWhiteSpace_def)
  from blank_message_rejected[where conversations = exampleConversations and cid = "''c-1''"
      and e = exampleEnv, OF h1 h2] h1 h3
  show ?thesis by blast
qed

lemma table_scenarios_nonempty:
  "list_all (\<lambda>p. snd p \<noteq> []) (s_patterns scenario_friendCheckin)"
  "list_all (\<lambda>p. snd p \<noteq> []) (s_patterns scenario_therapySuggestion)"
  "list_all (\<lambda>p. snd p \<noteq> []) (s_patterns scenario_workplaceMentalHealth)"
  "list_all (\<lambda>p. snd p \<noteq> []) (s_patterns scenario_familyConversation)"
  "list_all (\<lambda>p. snd p \<noteq> []) (s_patterns scenario_crisisResponse)"
  "list_all (\<lambda>p. snd p \<noteq> []) (s_patterns scenario_selfAdvocacy)"
  "list_all (\<lambda>p. snd p \<noteq> []) (s_patterns scenario_goingToDoctor)"
  "list_all (\<lambda>p. snd p \<noteq> []) (s_patterns scenario_toughWorkConversation)"
  "list_all (\<lambda>p. snd p \<noteq> []) (s_patterns scenario_askingSomeoneOut)"
  by (simp_all add: scenario_friendCheckin_def scenario_therapySuggestion_def scenario_workplaceMentalHealth_def scenario_familyConversation_def
      scenario_crisisResponse_def scenario_selfAdvocacy_def scenario_goingToDoctor_def scenario_toughWorkConversation_def scenario_askingSomeoneOut_def)

lemma table_nonempty:
  assumes "serverScenarios sid = Some sc"
  shows "list_all (\<lambda>p. snd p \<noteq> []) (s_patterns sc)"
proof -
  have "sc \<in> {scenario_friendCheckin, scenario_therapySuggestion, scenario_workplaceMentalHealth, scenario_familyConversation,
      scenario_crisisResponse, scenario_selfAdvocacy, scenario_goingToDoctor, scenario_toughWorkConversation, scenario_askingSomeoneOut}"
    using assms by (auto simp: serverScenarios_def split: if_splits)
  then show ?thesis using table_scenarios_nonempty by auto
qed

lemma table_lists_nonempty:
  assumes "serverScenarios sid = Some sc" and "map_of (s_patterns sc) cat = Some rs"
  shows "rs \<noteq> []"
proof -
  have "(cat, rs) \<in> set (s_patterns sc)" using assms(2) by (rule map_of_SomeD)
  then show ?thesis using table_nonempty[OF assms(1)] by (auto simp: list_all_iff)
qed

lemma at_index_random:
  "rs \<noteq> [] \<Longrightarrow> \<exists>s\<in>set rs. at_index rs (randomIndex r (length rs)) = Some s"
  by (simp add: at_index_def randomIndex_def)

lemma generalResponses_nonempty: "generalResponses \<noteq> []"
  by (simp add: generalResponses_def)

lemma generateAIResponse_in_possible:
  assumes "serverScenarios sid = Some scenario" and "conv_scenario conversation = Own scenario"
  shows "\<exists>s\<in>set (possibleResponses scenario (responseCategory userMessage)).
           generateAIResponse conversation userMessage r = Inr (Some s)"
proof -
  let ?rs = "possibleResponses scenario (responseCategory userMessage)"
  have "?rs \<noteq> []"
    using table_lists_nonempty[OF assms(1)] generalResponses_nonempty
    by (auto simp: possibleResponses_def split: option.splits)
  from at_index_random[OF this, of r] show ?thesis
    by (simp add: generateAIResponse_def assms(2) Let_def)
qed

text \<open>
  Claim C7, as stated, fails: in the scenario \<open>therapy-suggestion\<close> of the table the message
  \<open>I am sorry\<close> falls into the bucket \<open>empathy\<close>, the scenario has no list for that
  bucket, and the reply comes from the fixed general list instead.
\<close>

theorem generateAIResponse_bucket_list_counterexample:
  "serverScenarios ''therapy-suggestion'' = Some scenario_therapySuggestion \<and>
   conv_scenario exampleConversationTherapy = Own scenario_therapySuggestion \<and>
   responseCategory ''I am sorry'' = ''empathy'' \<and>
   map_of (s_patterns scenario_therapySuggestion) ''empathy'' = None \<and>
   generateAIResponse exampleConversationTherapy ''I am sorry'' 0 =
     Inr (Some ''I appreciate you saying that.'')"
  by code_simp

text \<open>
  Claim C7, amended. Every message falls into exactly one bucket, decided on the
  lower-cased text in the order empathy cues, question mark, advice cues, else general;
  for a conversation whose scenario is one of the scenarios of the table, the reply is a
  string drawn from the scenario's list for that bucket when the scenario has one, and
  from the fixed general list when it has none.
\<close>

theorem generateAIResponse_classifies:
  assumes "serverScenarios sid = Some scenario" and "conv_scenario conversation = Own scenario"
  shows "(str_includes (toLowerCase m) ''sorry'' \<or> str_includes (toLowerCase m) ''understand''
            \<or> str_includes (toLowerCase m) ''feel''
          \<longrightarrow> responseCategory m = ''empathy'')
       \<and> (\<not> (str_includes (toLowerCase m) ''sorry'' \<or> str_includes (toLowerCase m) ''understand''
            \<or> str_includes (toLowerCase m) ''feel'')
          \<longrightarrow> (str_includes (toLowerCase m) ''?'' \<longrightarrow> responseCategory m = ''questions'')
            \<and> (\<not> str_includes (toLowerCase m) ''?'' \<longrightarrow>
                 (str_includes (toLowerCase m) ''should'' \<or> str_includes (toLowerCase m) ''try''
                    \<or> str_includes (toLowerCase m) ''maybe''
                  \<longrightarrow> responseCategory m = ''solutions'')
               \<and> (\<not> (str_includes (toLowerCase m) ''should'' \<or> str_includes (toLowerCase m) ''try''
                    \<or> str_includes (toLowerCase m) ''maybe'')
                  \<longrightarrow> responseCategory m = ''general'')))
       \<and> generateAIResponse conversation m r \<in> (\<lambda>s. Inr (Some s)) `
           set (case map_of (s_patterns scenario) (responseCategory m) of
                  Some responses \<Rightarrow> responses
                | None \<Rightarrow> generalResponses)"
proof -
  have "generateAIResponse conversation m r \<in> (\<lambda>s. Inr (Some s)) `
           set (case map_of (s_patterns scenario) (responseCategory m) of
                  Some responses \<Rightarrow> responses
                | None \<Rightarrow> generalResponses)"
    using generateAIResponse_in_possible[OF assms, of m r]
    by (auto simp: possibleResponses_def)
  then show ?thesis by (simp add: responseCategory_def Let_def)
qed

theorem generateAIResponse_classifies_witness:
  "serverScenarios ''friend-checkin'' = Some scenario_friendCheckin \<and>
   conv_scenario exampleConversation = Own scenario_friendCheckin \<and>
   str_includes (toLowerCase ''Maybe you should rest. How do you FEEL?'') ''feel'' \<and>
   str_includes (toLowerCase ''Maybe you should rest. How do you FEEL?'') ''?'' \<and>
   str_includes (toLowerCase ''Maybe you should rest. How do you FEEL?'') ''should'' \<and>
   responseCategory ''Maybe you should rest. How do you FEEL?'' = ''empathy'' \<and>
   generateAIResponse exampleConversation ''Maybe you should rest. How do you FEEL?'' 3
     \<in> (\<lambda>s. Inr (Some s)) `
       set (case map_of (s_patterns scenario_friendCheckin) ''empathy'' of
              Some responses \<Rightarrow> responses
            | None \<Rightarrow> generalResponses) \<and>
   generateAIResponse exampleConversation ''Maybe you should rest. How do you FEEL?'' 3 =
     Inr (Some ''I appreciate you checking in. I have been struggling a bit.'')"
proof -
  have h1: "serverScenarios ''friend-checkin'' = Some scenario_friendCheckin" by code_simp
  have h2: "conv_scenario exampleConversation = Own scenario_friendCheckin" by code_simp
  have c1: "str_includes (toLowerCase ''Maybe you should rest. How do you FEEL?'') ''feel''"
    by code_simp
  have c2: "str_includes (toLowerCase ''Maybe you should rest. How do you FEEL?'') ''?''"
    by code_simp
  have c3: "str_includes (toLowerCase ''Maybe you should rest. How do you FEEL?'') ''should''"
    by code_simp
  have v: "generateAIResponse exampleConversation ''Maybe you should rest. How do you FEEL?'' 3 =
     Inr (Some ''I appreciate you checking in. I have been struggling a bit.'')"
    by code_simp
  note t = generateAIResponse_classifies[OF h1 h2,
      of "''Maybe you should rest. How do you FEEL?''" 3]
  from t c1 have cat: "responseCategory ''Maybe you should rest. How do you FEEL?'' = ''empathy''"
    by blast
  from t have "generateAIResponse exampleConversation ''Maybe you should rest. How do you FEEL?'' 3
      \<in> (\<lambda>s. Inr (Some s)) `
        set (case map_of (s_patterns scenario_friendCheckin)
                           (responseCategory ''Maybe you should rest. How do you FEEL?'') of
                      Some responses \<Rightarrow> responses
                    | None \<Rightarrow> generalResponses)"
    by blast
  then have "generateAIResponse exampleConversation ''Maybe you should rest. How do you FEEL?'' 3
      \<in> (\<lambda>s. Inr (Some s)) `
        set (case map_of (s_patterns scenario_friendCheckin) ''empathy'' of
                      Some responses \<Rightarrow> responses
                    | None \<Rightarrow> generalResponses)"
    unfolding cat .
  with h1 h2 c1 c2 c3 cat v show ?thesis by blast
qed




text \<open>
  Where such a conversation comes from: the start route tests \<open>scenarios[scenarioId]\<close> for
  truthiness only, so the inherited name \<open>constructor\<close> passes, the conversation is stored,
  and the reply fails with status 500; a later message to that conversation is stored and
  answered with status 500 as well.
\<close>

lemma start_with_inherited_name:
  "startRoute startEnv4 ''constructor'' Map.empty =
     (\<lparr>status = 500, body = ErrorBody errorText\<rparr>, [''c-4'' \<mapsto> exampleConversationInherited])"
  "status (fst (messageRoute exampleEnv ''c-4'' (Some ''How are you?'')
     [''c-4'' \<mapsto> exampleConversationInherited])) = 500"
  "startRoute startEnv4 ''no-such-scenario'' Map.empty =
     (\<lparr>status = 400, body = ErrorBody ''Invalid scenario ID''\<rparr>, Map.empty)"
  by (simp_all add: startRoute_def scenariosAt_def serverScenarios_def inheritedNames_def
      startEnv4_def exampleConversationInherited_def messageRoute_def trim_def isWhiteSpace_def
      detectCrisis_def crisisKeywords_def toLowerCase_def toLowerChar_def generateAIResponse_def
      exampleEnv_def Let_def)

section \<open>Script routes: the Nathan level and the update route\<close>

text \<open>
  Claim C5. \<open>calculateNathanLevel\<close> is a function of the script text and the enhancement
  list alone (no clock, no random draw, no stored state enters it), so equal inputs give
  the equal score, and every score lies between the base level 20 and the cap 100, hence
  within 0..100.
\<close>

theorem calculateNathanLevel_deterministic_bounded:
  assumes "script' = script" and "enhancements' = enhancements"
  shows "calculateNathanLevel script' enhancements' = calculateNathanLevel script enhancements
       \<and> 0 \<le> calculateNathanLevel script enhancements
       \<and> 20 \<le> calculateNathanLevel script enhancements
       \<and> calculateNathanLevel script enhancements \<le> 100"
  using assms by (simp add: calculateNathanLevel_def Let_def)

theorem calculateNathanLevel_deterministic_bounded_witness:
  "calculateNathanLevel
     ''So... I rehearsed this 73 times. Actually, 40% of my plan is a flowchart.''
     [''awkwardness'', ''statistics''] = 62
   \<and> 20 \<le> calculateNathanLevel
        ''So... I rehearsed this 73 times. Actually, 40% of my plan is a flowchart.''
        [''awkwardness'', ''statistics'']
   \<and> calculateNathanLevel
        ''So... I rehearsed this 73 times. Actually, 40% of my plan is a flowchart.''
        [''awkwardness'', ''statistics''] \<le> 100"
proof -
  have v: "calculateNathanLevel
     ''So... I rehearsed this 73 times. Actually, 40% of my plan is a flowchart.''
     [''awkwardness'', ''statistics''] = 62" by code_simp
  from calculateNathanLevel_deterministic_bounded[OF refl refl,
      of "''So... I rehearsed this 73 times. Actually, 40% of my plan is a flowchart.''"
         "[''awkwardness'', ''statistics'']"] v
  show ?thesis by blast
qed









section \<open>The analysis-response parser: labelled values and defaults\<close>


lemma isDigit_not_space: "isDigit c \<Longrightarrow> \<not> isWhiteSpace c"
  by (auto simp: isDigit_def isWhiteSpace_def Let_def)

lemma LF_not_digit: "\<not> isDigit LF"
  by (simp add: isDigit_def LF_def)

lemma takeWhile_block:
  "list_all P ds \<Longrightarrow> \<not> P c \<Longrightarrow> takeWhile P (ds @ c # rest) = ds"
  by (induction ds) auto

lemma spaces_digits:
  assumes "scoreText ds"
  shows "spaces digits (CHR '' '' # ds @ LF # rest) = Some ds"
proof -
  obtain d ds' where ds: "ds = d # ds'" "isDigit d" "list_all isDigit ds"
    using assms by (cases ds) (auto simp: scoreText_def)
  have w: "takeWhile isWhiteSpace (CHR '' '' # ds @ LF # rest) = [CHR '' '']"
    using ds isDigit_not_space[of d] by (simp add: isWhiteSpace_def)
  have "digits (ds @ LF # rest) = Some ds"
    using takeWhile_block[OF ds(3) LF_not_digit, of rest] ds(1)
    by (simp add: digits_def Let_def)
  then show ?thesis unfolding spaces_def w by simp
qed

lemma labelled_Cons:
  "labelled (l # ls) cont (c # rest) =
     (if l = c \<and> prefix ls rest then spaces cont (drop (length ls) rest) else None)"
  by (simp add: labelled_def)

lemma firstMatch_skip_block:
  assumes "list_all P ds" and "\<not> P l"
  shows "firstMatch (labelled (l # ls) cont) (ds @ rest) = firstMatch (labelled (l # ls) cont) rest"
  using assms by (induction ds) (auto simp: labelled_def)

lemma score_fields:
  assumes "scoreText awk" "scoreText cpx" "scoreText opt" "scoreText dlg" "scoreText prep" "scoreText auth" "scoreText stat"
  shows "scoreMatch ''AWKWARDNESS_SCORE:'' (wellFormedBlock awk cpx opt dlg prep auth stat obs sugg) = Some awk"
    and "scoreMatch ''COMPLEXITY_RATING:'' (wellFormedBlock awk cpx opt dlg prep auth stat obs sugg) = Some cpx"
    and "scoreMatch ''OPTIMALITY_SCORE:'' (wellFormedBlock awk cpx opt dlg prep auth stat obs sugg) = Some opt"
    and "scoreMatch ''DIALOGUE_QUALITY:'' (wellFormedBlock awk cpx opt dlg prep auth stat obs sugg) = Some dlg"
    and "scoreMatch ''PREPARATION_LEVEL:'' (wellFormedBlock awk cpx opt dlg prep auth stat obs sugg) = Some prep"
    and "scoreMatch ''AWKWARDNESS_AUTHENTICITY:'' (wellFormedBlock awk cpx opt dlg prep auth stat obs sugg) = Some auth"
    and "scoreMatch ''STATISTICAL_CREDIBILITY:'' (wellFormedBlock awk cpx opt dlg prep auth stat obs sugg) = Some stat"
proof -
  have d: "list_all isDigit awk" "list_all isDigit cpx" "list_all isDigit opt" "list_all isDigit dlg"
    "list_all isDigit prep" "list_all isDigit auth" "list_all isDigit stat"
    using assms by (simp_all add: scoreText_def)
  have nd: "\<not> isDigit CHR ''A''" "\<not> isDigit CHR ''C''" "\<not> isDigit CHR ''O''" "\<not> isDigit CHR ''D''"
     "\<not> isDigit CHR ''P''" "\<not> isDigit CHR ''S''"
    by (simp_all add: isDigit_def)
  note skip = firstMatch_skip_block[where P = isDigit]
  note hit = assms[THEN spaces_digits, unfolded LF_def]
  show "scoreMatch ''AWKWARDNESS_SCORE:'' (wellFormedBlock awk cpx opt dlg prep auth stat obs sugg) = Some awk"
    unfolding scoreMatch_def wellFormedBlock_def
    by (simp add: labelled_Cons skip d nd hit LF_def)
  show "scoreMatch ''COMPLEXITY_RATING:'' (wellFormedBlock awk cpx opt dlg prep auth stat obs sugg) = Some cpx"
    unfolding scoreMatch_def wellFormedBlock_def
    by (simp add: labelled_Cons skip d nd hit LF_def)
  show "scoreMatch ''OPTIMALITY_SCORE:'' (wellFormedBlock awk cpx opt dlg prep auth stat obs sugg) = Some opt"
    unfolding scoreMatch_def wellFormedBlock_def
    by (simp add: labelled_Cons skip d nd hit LF_def)
  show "scoreMatch ''DIALOGUE_QUALITY:'' (wellFormedBlock awk cpx opt dlg prep auth stat obs sugg) = Some dlg"
    unfolding scoreMatch_def wellFormedBlock_def
    by (simp add: labelled_Cons skip d nd hit LF_def)
  show "scoreMatch ''PREPARATION_LEVEL:'' (wellFormedBlock awk cpx opt dlg prep auth stat obs sugg) = Some prep"
    unfolding scoreMatch_def wellFormedBlock_def
    by (simp add: labelled_Cons skip d nd hit LF_def)
  show "scoreMatch ''AWKWARDNESS_AUTHENTICITY:'' (wellFormedBlock awk cpx opt dlg prep auth stat obs sugg) = Some auth"
    unfolding scoreMatch_def wellFormedBlock_def
    by (simp add: labelled_Cons skip d nd hit LF_def)
  show "scoreMatch ''STATISTICAL_CREDIBILITY:'' (wellFormedBlock awk cpx opt dlg prep auth stat obs sugg) = Some stat"
    unfolding scoreMatch_def wellFormedBlock_def
    by (simp add: labelled_Cons skip d nd hit LF_def)
qed

lemma spaces_first:
  assumes "cont (dropWhile isWhiteSpace r) = Some x"
  shows "spaces cont r = Some x"
proof (cases "length (takeWhile isWhiteSpace r)")
  case 0
  then have "dropWhile isWhiteSpace r = r"
    by (metis append_Nil length_0_conv takeWhile_dropWhile_id)
  with assms 0 show ?thesis by (simp add: spaces_def)
next
  case (Suc j)
  have "drop (Suc j) r = dropWhile isWhiteSpace r"
    using Suc by (metis dropWhile_eq_drop)
  with assms Suc show ?thesis by (simp add: spaces_def)
qed

lemma not_lookahead_line:
  "\<not> isLineTerminator c \<Longrightarrow> \<not> lookahead (c # cs)"
  by (auto simp: lookahead_def isLineTerminator_def LF_def)

lemma lazyDots_line:
  "lineText t \<Longrightarrow> lazyDots acc (t @ LF # LF # rest) = Some (rev acc @ t)"
proof (induction t arbitrary: acc)
  case Nil
  then show ?case by (simp add: lookahead_def)
next
  case (Cons c t)
  then have c: "\<not> isLineTerminator c" and t: "lineText t" by (simp_all add: lineText_def)
  show ?case using Cons.IH[OF t, of "c # acc"] c not_lookahead_line[OF c] by simp
qed

lemma dropWhile_append_keep:
  "\<exists>x\<in>set xs. \<not> P x \<Longrightarrow> dropWhile P (xs @ ys) = dropWhile P xs @ ys"
  by (induction xs) auto

lemma lineText_dropWhile: "lineText t \<Longrightarrow> lineText (dropWhile P t)"
  unfolding lineText_def list_all_iff by (auto dest: set_dropWhileD)

lemma spaces_observation:
  assumes "lineText obs" and "trim obs \<noteq> []"
  shows "spaces (lazyDots []) (CHR '' '' # obs @ LF # LF # rest) = Some (dropWhile isWhiteSpace obs)"
proof -
  have ex: "\<exists>x\<in>set obs. \<not> isWhiteSpace x" using assms(2) by (auto simp: trim_eq_Nil_iff)
  have sp: "isWhiteSpace CHR '' ''" by (simp add: isWhiteSpace_def)
  have "dropWhile isWhiteSpace (CHR '' '' # obs @ LF # LF # rest)
          = dropWhile isWhiteSpace obs @ LF # LF # rest"
    using dropWhile_append_keep[OF ex] sp by simp
  moreover have "lazyDots [] (dropWhile isWhiteSpace obs @ LF # LF # rest)
          = Some (dropWhile isWhiteSpace obs)"
    using lazyDots_line[OF lineText_dropWhile[OF assms(1)], of "[]"] by simp
  ultimately show ?thesis by (simp add: spaces_first)
qed

lemma trim_dropWhile: "trim (dropWhile isWhiteSpace s) = trim s"
  by (simp add: trim_def)

lemma observation_field:
  assumes "scoreText awk" "scoreText cpx" "scoreText opt" "scoreText dlg" "scoreText prep"
    "scoreText auth" "scoreText stat" "lineText obs" "trim obs \<noteq> []"
  shows "observationMatch (wellFormedBlock awk cpx opt dlg prep auth stat obs sugg)
           = Some (dropWhile isWhiteSpace obs)"
proof -
  have d: "list_all isDigit awk" "list_all isDigit cpx" "list_all isDigit opt" "list_all isDigit dlg"
    "list_all isDigit prep" "list_all isDigit auth" "list_all isDigit stat"
    using assms by (simp_all add: scoreText_def)
  have nd: "\<not> isDigit CHR ''N''" by (simp add: isDigit_def)
  note skip = firstMatch_skip_block[where P = isDigit]
  note hit = spaces_observation[OF assms(8,9), unfolded LF_def]
  show ?thesis
    unfolding observationMatch_def wellFormedBlock_def
    by (simp add: labelled_Cons skip d nd hit LF_def)
qed

lemma firstMatch_skip_text:
  assumes "\<not> str_includes t (l # ls)" and "c \<notin> set (l # ls)"
  shows "firstMatch (labelled (l # ls) cont) (t @ c # rest) = firstMatch (labelled (l # ls) cont) (c # rest)"
  using assms(1)
proof (induction t)
  case Nil
  then show ?case by simp
next
  case (Cons x t)
  have np: "\<not> prefix (l # ls) (x # t)" and nt: "\<not> str_includes t (l # ls)"
    using Cons.prems by simp_all
  have "\<not> prefix (l # ls) ((x # t) @ c # rest)"
  proof
    assume "prefix (l # ls) ((x # t) @ c # rest)"
    then consider "prefix (l # ls) (x # t)"
      | us where "l # ls = (x # t) @ us" "prefix us (c # rest)"
      unfolding prefix_append by blast
    then show False
    proof cases
      case 1
      with np show False by simp
    next
      case 2
      show False
      proof (cases us)
        case Nil
        with 2(1) np show False by simp
      next
        case (Cons u us')
        with 2(2) have "u = c" by simp
        with Cons 2(1) have "c \<in> set (l # ls)" by (metis in_set_conv_decomp)
        with assms(2) show False by simp
      qed
    qed
  qed
  then have "labelled (l # ls) cont ((x # t) @ c # rest) = None"
    by (simp only: labelled_def if_False)
  then have "labelled (l # ls) cont (x # t @ c # rest) = None" by (simp only: append_Cons)
  then show ?case using Cons.IH[OF nt] by (simp only: append_Cons firstMatch.simps option.case)
qed



lemma takeWhile_line:
  assumes "lineText s" and "rest = [] \<or> hd rest = LF"
  shows "takeWhile (\<lambda>x. \<not> isLineTerminator x) (s @ rest) = s"
    and "dropWhile (\<lambda>x. \<not> isLineTerminator x) (s @ rest) = rest"
proof -
  have a: "\<forall>x\<in>set s. \<not> isLineTerminator x" using assms(1) by (simp add: lineText_def list_all_iff)
  have b: "takeWhile (\<lambda>x. \<not> isLineTerminator x) rest = []"
    using assms(2) by (cases rest) (auto simp: isLineTerminator_def LF_def)
  have c: "dropWhile (\<lambda>x. \<not> isLineTerminator x) rest = rest"
    using assms(2) by (cases rest) (auto simp: isLineTerminator_def LF_def)
  show "takeWhile (\<lambda>x. \<not> isLineTerminator x) (s @ rest) = s"
    using a b by (simp add: takeWhile_append2)
  show "dropWhile (\<lambda>x. \<not> isLineTerminator x) (s @ rest) = rest"
    using a c by (simp add: dropWhile_append2)
qed

lemma dashed_head: "dashed ss = [] \<or> hd (dashed ss) = LF"
  by (cases ss) (simp_all add: dashed_def)

lemma dashLine_first:
  assumes "lineText s"
  shows "dashLine (''- '' @ s @ dashed ss) = Some (''- '' @ s, dashed ss)"
proof -
  have sp: "\<not> isLineTerminator CHR '' ''" by (simp add: isLineTerminator_def)
  have "lineText (CHR '' '' # s)" using assms sp by (simp add: lineText_def)
  from takeWhile_line[OF this dashed_head[of ss]] show ?thesis
    by (simp add: dashLine_def LF_def)
qed

lemma dashLine_next:
  assumes "lineText s"
  shows "dashLine (LF # ''- '' @ s @ dashed ss) = Some (LF # ''- '' @ s, dashed ss)"
proof -
  have sp: "\<not> isLineTerminator CHR '' ''" by (simp add: isLineTerminator_def)
  have "lineText (CHR '' '' # s)" using assms sp by (simp add: lineText_def)
  from takeWhile_line[OF this dashed_head[of ss]] show ?thesis
    by (simp add: dashLine_def)
qed

lemma dashed_Cons: "dashed (s # ss) = LF # ''- '' @ s @ dashed ss"
  by (simp add: dashed_def)

lemma dashLines_dashed:
  "list_all lineText ss \<Longrightarrow> length (dashed ss) \<le> n \<Longrightarrow> dashLines n (dashed ss) = dashed ss"
proof (induction ss arbitrary: n)
  case Nil
  have "dashLine [] = None" by (simp add: dashLine_def)
  then show ?case by (cases n) (simp_all add: dashed_def)
next
  case (Cons s ss)
  from Cons.prems(2) obtain m where n: "n = Suc m" and m: "length (dashed ss) \<le> m"
    by (cases n) (auto simp: dashed_Cons)
  have s: "lineText s" and ss: "list_all lineText ss" using Cons.prems(1) by simp_all
  have "dashLines (Suc m) (LF # ''- '' @ s @ dashed ss) = (LF # ''- '' @ s) @ dashLines m (dashed ss)"
    using dashLine_next[OF s, of ss] by (simp del: append.simps)
  then show ?case using Cons.IH[OF ss m] n by (simp add: dashed_Cons)
qed

lemma dashGroup_dashed:
  assumes "lineText s" and "list_all lineText ss"
  shows "dashGroup (''- '' @ s @ dashed ss) = Some (''- '' @ s @ dashed ss)"
  using dashLine_first[OF assms(1), of ss] dashLines_dashed[OF assms(2) order_refl]
  by (simp add: dashGroup_def del: append.simps)

lemma spaces_suggestions:
  assumes "lineText s" and "list_all lineText ss"
  shows "spaces dashGroup (dashed (s # ss)) = Some (''- '' @ s @ dashed ss)"
proof -
  have "isWhiteSpace LF" by (simp add: isWhiteSpace_def LF_def)
  moreover have "\<not> isWhiteSpace CHR ''-''" by (simp add: isWhiteSpace_def)
  ultimately have "dropWhile isWhiteSpace (dashed (s # ss)) = ''- '' @ s @ dashed ss"
    by (simp add: dashed_Cons)
  then show ?thesis using dashGroup_dashed[OF assms] by (simp add: spaces_first)
qed

lemma lineText_no_LF: "lineText s \<Longrightarrow> LF \<notin> set s"
  by (auto simp: lineText_def list_all_iff isLineTerminator_def LF_def)

lemma splitOn_end: "sep \<notin> set t \<Longrightarrow> splitOn sep acc t = [rev acc @ t]"
  by (induction t arbitrary: acc) auto

lemma splitOn_sep:
  "sep \<notin> set t \<Longrightarrow> splitOn sep acc (t @ sep # rest) = (rev acc @ t) # splitOn sep [] rest"
  by (induction t arbitrary: acc) auto

lemma splitOn_dashed:
  assumes "lineText s" and "list_all lineText ss"
  shows "splitOn LF [] (''- '' @ s @ dashed ss) = map (\<lambda>x. ''- '' @ x) (s # ss)"
  using assms
proof (induction ss arbitrary: s)
  case Nil
  have "LF \<notin> set (''- '' @ s)" using lineText_no_LF[OF Nil(1)] by (simp add: LF_def)
  from splitOn_end[OF this, of "[]"] show ?case by (simp add: dashed_def)
next
  case (Cons s' ss)
  have n: "LF \<notin> set (''- '' @ s)" using lineText_no_LF[OF Cons.prems(1)] by (simp add: LF_def)
  have "splitOn LF [] ((''- '' @ s) @ LF # (''- '' @ s' @ dashed ss))
          = (''- '' @ s) # splitOn LF [] (''- '' @ s' @ dashed ss)"
    using splitOn_sep[OF n, of "[]"] by simp
  moreover have "splitOn LF [] (''- '' @ s' @ dashed ss) = map (\<lambda>x. ''- '' @ x) (s' # ss)"
    using Cons.IH Cons.prems(2) by simp
  ultimately show ?case by (simp add: dashed_Cons)
qed

lemma trim_Cons_nonspace:
  "\<not> isWhiteSpace c \<Longrightarrow> trim (c # cs) = c # rev (dropWhile isWhiteSpace (rev cs))"
  by (simp add: trim_def dropWhile_append3)

lemma suggestion_line:
  "startsWithDash (trim (''- '' @ s))" "trim (stripDash (''- '' @ s)) = trim s"
proof -
  have d: "\<not> isWhiteSpace CHR ''-''" by (simp add: isWhiteSpace_def)
  have sp: "isWhiteSpace CHR '' ''" by (simp add: isWhiteSpace_def)
  show "startsWithDash (trim (''- '' @ s))"
    using trim_Cons_nonspace[OF d] by (simp add: startsWithDash_def)
  show "trim (stripDash (''- '' @ s)) = trim s"
    using sp by (simp add: stripDash_def trim_dropWhile)
qed

lemma suggestions_of_captured:
  assumes "lineText s" and "list_all lineText ss"
  shows "map (\<lambda>line. trim (stripDash line))
           (filter (\<lambda>line. startsWithDash (trim line)) (splitOn LF [] (''- '' @ s @ dashed ss)))
         = map trim (s # ss)"
proof -
  have f: "filter (\<lambda>line. startsWithDash (trim line)) (map (\<lambda>x. ''- '' @ x) xs)
             = map (\<lambda>x. ''- '' @ x) xs" for xs
    using suggestion_line(1) by (induction xs) simp_all
  have m: "map (\<lambda>line. trim (stripDash line)) (map (\<lambda>x. ''- '' @ x) xs) = map trim xs" for xs
    using suggestion_line(2) by (induction xs) simp_all
  show ?thesis unfolding splitOn_dashed[OF assms] f m ..
qed

lemma suggestions_field:
  assumes "scoreText awk" "scoreText cpx" "scoreText opt" "scoreText dlg" "scoreText prep"
    "scoreText auth" "scoreText stat"
    "\<not> str_includes obs ''IMPROVEMENT_SUGGESTIONS:''" "lineText s" "list_all lineText ss"
  shows "suggestionsMatch (wellFormedBlock awk cpx opt dlg prep auth stat obs (s # ss))
           = Some (''- '' @ s @ dashed ss)"
proof -
  have d: "list_all isDigit awk" "list_all isDigit cpx" "list_all isDigit opt" "list_all isDigit dlg"
    "list_all isDigit prep" "list_all isDigit auth" "list_all isDigit stat"
    using assms by (simp_all add: scoreText_def)
  have nd: "\<not> isDigit CHR ''I''" by (simp add: isDigit_def)
  note skip = firstMatch_skip_block[where P = isDigit]
  note skipt = firstMatch_skip_text[where c = "CHR 0x0A"]
  note hit = spaces_suggestions[OF assms(9,10)]
  show ?thesis
    unfolding suggestionsMatch_def wellFormedBlock_def
    using assms(8)
    by (simp add: labelled_Cons skip skipt d nd hit LF_def)
qed

lemma parse_wellFormedBlock:
  assumes "scoreText awk" "scoreText cpx" "scoreText opt" "scoreText dlg" "scoreText prep"
    "scoreText auth" "scoreText stat"
    "lineText obs" "trim obs \<noteq> []" "\<not> str_includes obs ''IMPROVEMENT_SUGGESTIONS:''"
    "sugg \<noteq> []" "length sugg \<le> 5" "list_all lineText sugg"
  shows "parseAnalysisResponse (wellFormedBlock awk cpx opt dlg prep auth stat obs sugg) =
     \<lparr>awkwardnessScore = parseInt awk,
      complexityRating = parseInt cpx,
      optimalityScore = parseInt opt,
      nathanObservation = trim obs,
      improvementSuggestions = map trim sugg,
      breakdown = \<lparr>dialogueQuality = parseInt dlg, preparationLevel = parseInt prep,
        awkwardnessAuthenticity = parseInt auth, statisticalCredibility = parseInt stat\<rparr>\<rparr>"
proof -
  obtain s ss where sugg: "sugg = s # ss" using assms(11) by (cases sugg) auto
  have l: "lineText s" "list_all lineText ss" using assms(13) sugg by simp_all
  note sc = score_fields[OF assms(1-7), of obs sugg]
  note ob = observation_field[OF assms(1-9), of sugg]
  have cap: "suggestionsMatch (wellFormedBlock awk cpx opt dlg prep auth stat obs sugg)
               = Some (''- '' @ s @ dashed ss)"
    unfolding sugg by (rule suggestions_field[OF assms(1-7) assms(10) l])
  have sl: "map (\<lambda>line. trim (stripDash line))
              (filter (\<lambda>line. startsWithDash (trim line)) (splitOn LF [] (''- '' @ s @ dashed ss)))
            = map trim sugg"
    unfolding sugg by (rule suggestions_of_captured[OF l])
  have t: "take 5 (map trim sugg) = map trim sugg" using assms(12) by simp
  show ?thesis
    unfolding parseAnalysisResponse_def Let_def sc ob cap option.case sl t score_def trim_dropWhile
    by (rule refl)
qed

lemma parse_defaults:
  "scoreMatch ''AWKWARDNESS_SCORE:'' r = None \<Longrightarrow> awkwardnessScore (parseAnalysisResponse r) = 73"
  "scoreMatch ''COMPLEXITY_RATING:'' r = None \<Longrightarrow> complexityRating (parseAnalysisResponse r) = 67"
  "scoreMatch ''OPTIMALITY_SCORE:'' r = None \<Longrightarrow> optimalityScore (parseAnalysisResponse r) = 81"
  "scoreMatch ''DIALOGUE_QUALITY:'' r = None \<Longrightarrow>
     dialogueQuality (breakdown (parseAnalysisResponse r)) = 75"
  "scoreMatch ''PREPARATION_LEVEL:'' r = None \<Longrightarrow>
     preparationLevel (breakdown (parseAnalysisResponse r)) = 68"
  "scoreMatch ''AWKWARDNESS_AUTHENTICITY:'' r = None \<Longrightarrow>
     awkwardnessAuthenticity (breakdown (parseAnalysisResponse r)) = 82"
  "scoreMatch ''STATISTICAL_CREDIBILITY:'' r = None \<Longrightarrow>
     statisticalCredibility (breakdown (parseAnalysisResponse r)) = 45"
  "observationMatch r = None \<Longrightarrow>
     nathanObservation (parseAnalysisResponse r) =
       ''This script shows promise but needs more statistical backing and at least 47 additional rehearsals.''"
  "suggestionsMatch r = None \<Longrightarrow>
     improvementSuggestions (parseAnalysisResponse r) =
       [''Add more specific timing for awkward pauses'',
        ''Include backup dialogue for when the first option fails'',
        ''Consider building a scale model of the location'']"
  by (simp_all add: parseAnalysisResponse_def Let_def score_def defaultValues_def)

lemma firstMatch_absent:
  "\<not> str_includes r (l # ls) \<Longrightarrow> firstMatch (labelled (l # ls) cont) r = None"
  by (induction r) (auto simp: labelled_def)

lemma parse_no_labels:
  assumes "\<not> str_includes r ''AWKWARDNESS_SCORE:'' "
    "\<not> str_includes r ''COMPLEXITY_RATING:'' "
    "\<not> str_includes r ''OPTIMALITY_SCORE:'' "
    "\<not> str_includes r ''DIALOGUE_QUALITY:'' "
    "\<not> str_includes r ''PREPARATION_LEVEL:'' "
    "\<not> str_includes r ''AWKWARDNESS_AUTHENTICITY:'' "
    "\<not> str_includes r ''STATISTICAL_CREDIBILITY:'' "
    "\<not> str_includes r ''NATHAN_OBSERVATION:'' "
    "\<not> str_includes r ''IMPROVEMENT_SUGGESTIONS:''"
  shows "parseAnalysisResponse r = defaultValues"
proof -
  have m1: "scoreMatch ''AWKWARDNESS_SCORE:'' r = None"
    unfolding scoreMatch_def by (rule firstMatch_absent[OF assms(1)])
  have m2: "scoreMatch ''COMPLEXITY_RATING:'' r = None"
    unfolding scoreMatch_def by (rule firstMatch_absent[OF assms(2)])
  have m3: "scoreMatch ''OPTIMALITY_SCORE:'' r = None"
    unfolding scoreMatch_def by (rule firstMatch_absent[OF assms(3)])
  have m4: "scoreMatch ''DIALOGUE_QUALITY:'' r = None"
    unfolding scoreMatch_def by (rule firstMatch_absent[OF assms(4)])
  have m5: "scoreMatch ''PREPARATION_LEVEL:'' r = None"
    unfolding scoreMatch_def by (rule firstMatch_absent[OF assms(5)])
  have m6: "scoreMatch ''AWKWARDNESS_AUTHENTICITY:'' r = None"
    unfolding scoreMatch_def by (rule firstMatch_absent[OF assms(6)])
  have m7: "scoreMatch ''STATISTICAL_CREDIBILITY:'' r = None"
    unfolding scoreMatch_def by (rule firstMatch_absent[OF assms(7)])
  have m8: "observationMatch r = None"
    unfolding observationMatch_def by (rule firstMatch_absent[OF assms(8)])
  have m9: "suggestionsMatch r = None"
    unfolding suggestionsMatch_def by (rule firstMatch_absent[OF assms(9)])
  show ?thesis
    unfolding parseAnalysisResponse_def Let_def m1 m2 m3 m4 m5 m6 m7 m8 m9
    by (simp add: score_def defaultValues_def)
qed

text \<open>
  Claim C6. On a reply in the format the prompt asks for (score texts of one to three
  digits, a one-line observation that is not blank and does not quote the suggestions
  label, one to five one-line suggestions) every field of the parsed analysis is the
  labelled value: the number the digits denote, the observation and the suggestions with
  the white space around them trimmed. On any reply, a field whose regular expression finds
  no match has its static default: 73, 67, 81, the default observation, the three default
  suggestions, and 75, 68, 82, 45 in the breakdown; a reply that holds none of the nine
  labels is parsed to the default values as a whole.
\<close>

theorem parseAnalysisResponse_fields:
  "(scoreText awk \<and> scoreText cpx \<and> scoreText opt \<and> scoreText dlg \<and> scoreText prep \<and>
    scoreText auth \<and> scoreText stat \<and>
    lineText obs \<and> trim obs \<noteq> [] \<and> \<not> str_includes obs ''IMPROVEMENT_SUGGESTIONS:'' \<and>
    sugg \<noteq> [] \<and> length sugg \<le> 5 \<and> list_all lineText sugg
    \<longrightarrow> parseAnalysisResponse (wellFormedBlock awk cpx opt dlg prep auth stat obs sugg) =
         \<lparr>awkwardnessScore = parseInt awk,
          complexityRating = parseInt cpx,
          optimalityScore = parseInt opt,
          nathanObservation = trim obs,
          improvementSuggestions = map trim sugg,
          breakdown = \<lparr>dialogueQuality = parseInt dlg, preparationLevel = parseInt prep,
            awkwardnessAuthenticity = parseInt auth, statisticalCredibility = parseInt stat\<rparr>\<rparr>)
   \<and> (scoreMatch ''AWKWARDNESS_SCORE:'' r = None \<longrightarrow>
        awkwardnessScore (parseAnalysisResponse r) = 73)
   \<and> (scoreMatch ''COMPLEXITY_RATING:'' r = None \<longrightarrow>
        complexityRating (parseAnalysisResponse r) = 67)
   \<and> (scoreMatch ''OPTIMALITY_SCORE:'' r = None \<longrightarrow>
        optimalityScore (parseAnalysisResponse r) = 81)
   \<and> (scoreMatch ''DIALOGUE_QUALITY:'' r = None \<longrightarrow>
        dialogueQuality (breakdown (parseAnalysisResponse r)) = 75)
   \<and> (scoreMatch ''PREPARATION_LEVEL:'' r = None \<longrightarrow>
        preparationLevel (breakdown (parseAnalysisResponse r)) = 68)
   \<and> (scoreMatch ''AWKWARDNESS_AUTHENTICITY:'' r = None \<longrightarrow>
        awkwardnessAuthenticity (breakdown (parseAnalysisResponse r)) = 82)
   \<and> (scoreMatch ''STATISTICAL_CREDIBILITY:'' r = None \<longrightarrow>
        statisticalCredibility (breakdown (parseAnalysisResponse r)) = 45)
   \<and> (observationMatch r = None \<longrightarrow>
        nathanObservation (parseAnalysisResponse r) =
          ''This script shows promise but needs more statistical backing and at least 47 additional rehearsals.'')
   \<and> (suggestionsMatch r = None \<longrightarrow>
        improvementSuggestions (parseAnalysisResponse r) =
          [''Add more specific timing for awkward pauses'',
           ''Include backup dialogue for when the first option fails'',
           ''Consider building a scale model of the location''])
   \<and> (\<not> str_includes r ''AWKWARDNESS_SCORE:'' \<and>
        \<not> str_includes r ''COMPLEXITY_RATING:'' \<and>
        \<not> str_includes r ''OPTIMALITY_SCORE:'' \<and>
        \<not> str_includes r ''DIALOGUE_QUALITY:'' \<and>
        \<not> str_includes r ''PREPARATION_LEVEL:'' \<and>
        \<not> str_includes r ''AWKWARDNESS_AUTHENTICITY:'' \<and>
        \<not> str_includes r ''STATISTICAL_CREDIBILITY:'' \<and>
        \<not> str_includes r ''NATHAN_OBSERVATION:'' \<and>
        \<not> str_includes r ''IMPROVEMENT_SUGGESTIONS:''
        \<longrightarrow> parseAnalysisResponse r = defaultValues)"
proof (intro conjI impI)
  assume "scoreText awk \<and> scoreText cpx \<and> scoreText opt \<and> scoreText dlg \<and> scoreText prep \<and>
    scoreText auth \<and> scoreText stat \<and>
    lineText obs \<and> trim obs \<noteq> [] \<and> \<not> str_includes obs ''IMPROVEMENT_SUGGESTIONS:'' \<and>
    sugg \<noteq> [] \<and> length sugg \<le> 5 \<and> list_all lineText sugg"
  then show "parseAnalysisResponse (wellFormedBlock awk cpx opt dlg prep auth stat obs sugg) =
         \<lparr>awkwardnessScore = parseInt awk,
          complexityRating = parseInt cpx,
          optimalityScore = parseInt opt,
          nathanObservation = trim obs,
          improvementSuggestions = map trim sugg,
          breakdown = \<lparr>dialogueQuality = parseInt dlg, preparationLevel = parseInt prep,
            awkwardnessAuthenticity = parseInt auth, statisticalCredibility = parseInt stat\<rparr>\<rparr>"
    by (elim conjE) (rule parse_wellFormedBlock)
next
  assume "\<not> str_includes r ''AWKWARDNESS_SCORE:'' \<and>
    \<not> str_includes r ''COMPLEXITY_RATING:'' \<and>
    \<not> str_includes r ''OPTIMALITY_SCORE:'' \<and>
    \<not> str_includes r ''DIALOGUE_QUALITY:'' \<and>
    \<not> str_includes r ''PREPARATION_LEVEL:'' \<and>
    \<not> str_includes r ''AWKWARDNESS_AUTHENTICITY:'' \<and>
    \<not> str_includes r ''STATISTICAL_CREDIBILITY:'' \<and>
    \<not> str_includes r ''NATHAN_OBSERVATION:'' \<and>
    \<not> str_includes r ''IMPROVEMENT_SUGGESTIONS:''"
  then show "parseAnalysisResponse r = defaultValues"
    by (elim conjE) (rule parse_no_labels)
qed (erule parse_defaults)+

theorem parseAnalysisResponse_fields_witness:
  "(scoreText ''85'') \<and>
   (scoreText ''70'') \<and>
   (scoreText ''92'') \<and>
   (scoreText ''64'') \<and>
   (scoreText ''100'') \<and>
   (scoreText ''7'') \<and>
   (scoreText ''051'') \<and>
   (lineText ''The pauses are well documented. I would rehearse it 47 more times.'') \<and>
   (trim ''The pauses are well documented. I would rehearse it 47 more times.'' \<noteq> []) \<and>
   (\<not> str_includes ''The pauses are well documented. I would rehearse it 47 more times.'' ''IMPROVEMENT_SUGGESTIONS:'') \<and>
   ([''Time each pause with a stopwatch'', ''Build a replica of the cafe'', ''Hire an actor''] \<noteq> []) \<and>
   (length [''Time each pause with a stopwatch'', ''Build a replica of the cafe'', ''Hire an actor''] \<le> 5) \<and>
   (list_all lineText [''Time each pause with a stopwatch'', ''Build a replica of the cafe'', ''Hire an actor'']) \<and>
   parseAnalysisResponse exampleReply =
      \<lparr>awkwardnessScore = 85, complexityRating = 70, optimalityScore = 92,
       nathanObservation = ''The pauses are well documented. I would rehearse it 47 more times.'',
       improvementSuggestions =
         [''Time each pause with a stopwatch'', ''Build a replica of the cafe'', ''Hire an actor''],
       breakdown = \<lparr>dialogueQuality = 64, preparationLevel = 100,
         awkwardnessAuthenticity = 7, statisticalCredibility = 51\<rparr>\<rparr> \<and>
   (scoreMatch ''AWKWARDNESS_SCORE:'' exampleGarbledReply = None) \<and>
   (scoreMatch ''COMPLEXITY_RATING:'' exampleGarbledReply = None) \<and>
   (scoreMatch ''OPTIMALITY_SCORE:'' exampleGarbledReply = None) \<and>
   (scoreMatch ''DIALOGUE_QUALITY:'' exampleGarbledReply = None) \<and>
   (scoreMatch ''PREPARATION_LEVEL:'' exampleGarbledReply = None) \<and>
   (scoreMatch ''AWKWARDNESS_AUTHENTICITY:'' exampleGarbledReply = None) \<and>
   (scoreMatch ''STATISTICAL_CREDIBILITY:'' exampleGarbledReply = None) \<and>
   (observationMatch exampleGarbledReply = None) \<and>
   (suggestionsMatch exampleGarbledReply = None) \<and>
   (awkwardnessScore (parseAnalysisResponse exampleGarbledReply) = 73) \<and>
   (complexityRating (parseAnalysisResponse exampleGarbledReply) = 67) \<and>
   (optimalityScore (parseAnalysisResponse exampleGarbledReply) = 81) \<and>
   (dialogueQuality (breakdown (parseAnalysisResponse exampleGarbledReply)) = 75) \<and>
   (preparationLevel (breakdown (parseAnalysisResponse exampleGarbledReply)) = 68) \<and>
   (awkwardnessAuthenticity (breakdown (parseAnalysisResponse exampleGarbledReply)) = 82) \<and>
   (statisticalCredibility (breakdown (parseAnalysisResponse exampleGarbledReply)) = 45) \<and>
   (nathanObservation (parseAnalysisResponse exampleGarbledReply) =
     ''This script shows promise but needs more statistical backing and at least 47 additional rehearsals.'') \<and>
   (improvementSuggestions (parseAnalysisResponse exampleGarbledReply) =
     [''Add more specific timing for awkward pauses'',
      ''Include backup dialogue for when the first option fails'',
      ''Consider building a scale model of the location''])\<and>
   (\<not> str_includes exampleApology ''AWKWARDNESS_SCORE:'') \<and>
   (\<not> str_includes exampleApology ''COMPLEXITY_RATING:'') \<and>
   (\<not> str_includes exampleApology ''OPTIMALITY_SCORE:'') \<and>
   (\<not> str_includes exampleApology ''DIALOGUE_QUALITY:'') \<and>
   (\<not> str_includes exampleApology ''PREPARATION_LEVEL:'') \<and>
   (\<not> str_includes exampleApology ''AWKWARDNESS_AUTHENTICITY:'') \<and>
   (\<not> str_includes exampleApology ''STATISTICAL_CREDIBILITY:'') \<and>
   (\<not> str_includes exampleApology ''NATHAN_OBSERVATION:'') \<and>
   (\<not> str_includes exampleApology ''IMPROVEMENT_SUGGESTIONS:'') \<and>
   parseAnalysisResponse exampleApology = defaultValues"
proof -
  have h1: "scoreText ''85''" by code_simp
  have h2: "scoreText ''70''" by code_simp
  have h3: "scoreText ''92''" by code_simp
  have h4: "scoreText ''64''" by code_simp
  have h5: "scoreText ''100''" by code_simp
  have h6: "scoreText ''7''" by code_simp
  have h7: "scoreText ''051''" by code_simp
  have h8: "lineText ''The pauses are well documented. I would rehearse it 47 more times.''" by code_simp
  have h9: "trim ''The pauses are well documented. I would rehearse it 47 more times.'' \<noteq> []" by code_simp
  have h10: "\<not> str_includes ''The pauses are well documented. I would rehearse it 47 more times.'' ''IMPROVEMENT_SUGGESTIONS:''" by code_simp
  have h11: "[''Time each pause with a stopwatch'', ''Build a replica of the cafe'', ''Hire an actor''] \<noteq> []" by code_simp
  have h12: "length [''Time each pause with a stopwatch'', ''Build a replica of the cafe'', ''Hire an actor''] \<le> 5" by code_simp
  have h13: "list_all lineText [''Time each pause with a stopwatch'', ''Build a replica of the cafe'', ''Hire an actor'']" by code_simp
  have v1: "parseInt ''85'' = 85" by code_simp
  have v2: "parseInt ''70'' = 70" by code_simp
  have v3: "parseInt ''92'' = 92" by code_simp
  have v4: "parseInt ''64'' = 64" by code_simp
  have v5: "parseInt ''100'' = 100" by code_simp
  have v6: "parseInt ''7'' = 7" by code_simp
  have v7: "parseInt ''051'' = 51" by code_simp
  have v8: "trim ''The pauses are well documented. I would rehearse it 47 more times.''
      = ''The pauses are well documented. I would rehearse it 47 more times.''" by code_simp
  have v9: "map trim [''Time each pause with a stopwatch'', ''Build a replica of the cafe'', ''Hire an actor'']
      = [''Time each pause with a stopwatch'', ''Build a replica of the cafe'', ''Hire an actor'']" by code_simp
  have g1: "scoreMatch ''AWKWARDNESS_SCORE:'' exampleGarbledReply = None" by code_simp
  have g2: "scoreMatch ''COMPLEXITY_RATING:'' exampleGarbledReply = None" by code_simp
  have g3: "scoreMatch ''OPTIMALITY_SCORE:'' exampleGarbledReply = None" by code_simp
  have g4: "scoreMatch ''DIALOGUE_QUALITY:'' exampleGarbledReply = None" by code_simp
  have g5: "scoreMatch ''PREPARATION_LEVEL:'' exampleGarbledReply = None" by code_simp
  have g6: "scoreMatch ''AWKWARDNESS_AUTHENTICITY:'' exampleGarbledReply = None" by code_simp
  have g7: "scoreMatch ''STATISTICAL_CREDIBILITY:'' exampleGarbledReply = None" by code_simp
  have g8: "observationMatch exampleGarbledReply = None" by code_simp
  have g9: "suggestionsMatch exampleGarbledReply = None" by code_simp
  have n1: "\<not> str_includes exampleApology ''AWKWARDNESS_SCORE:''" by code_simp
  have n2: "\<not> str_includes exampleApology ''COMPLEXITY_RATING:''" by code_simp
  have n3: "\<not> str_includes exampleApology ''OPTIMALITY_SCORE:''" by code_simp
  have n4: "\<not> str_includes exampleApology ''DIALOGUE_QUALITY:''" by code_simp
  have n5: "\<not> str_includes exampleApology ''PREPARATION_LEVEL:''" by code_simp
  have n6: "\<not> str_includes exampleApology ''AWKWARDNESS_AUTHENTICITY:''" by code_simp
  have n7: "\<not> str_includes exampleApology ''STATISTICAL_CREDIBILITY:''" by code_simp
  have n8: "\<not> str_includes exampleApology ''NATHAN_OBSERVATION:''" by code_simp
  have n9: "\<not> str_includes exampleApology ''IMPROVEMENT_SUGGESTIONS:''" by code_simp
  note T = parseAnalysisResponse_fields[of "''85''" "''70''" "''92''" "''64''" "''100''" "''7''" "''051''"
      "''The pauses are well documented. I would rehearse it 47 more times.''"
      "[''Time each pause with a stopwatch'', ''Build a replica of the cafe'', ''Hire an actor'']"
      exampleGarbledReply]
  note U = parseAnalysisResponse_fields[of "''85''" "''70''" "''92''" "''64''" "''100''" "''7''" "''051''"
      "''The pauses are well documented. I would rehearse it 47 more times.''"
      "[''Time each pause with a stopwatch'', ''Build a replica of the cafe'', ''Hire an actor'']"
      exampleApology]
  have dflt: "parseAnalysisResponse exampleApology = defaultValues"
    by (rule U[THEN conjunct2, THEN conjunct2, THEN conjunct2, THEN conjunct2, THEN conjunct2, THEN conjunct2, THEN conjunct2, THEN conjunct2, THEN conjunct2, THEN conjunct2, rule_format]) (intro conjI n1 n2 n3 n4 n5 n6 n7 n8 n9)
  have "parseAnalysisResponse (wellFormedBlock ''85'' ''70'' ''92'' ''64'' ''100'' ''7'' ''051''
      ''The pauses are well documented. I would rehearse it 47 more times.''
      [''Time each pause with a stopwatch'', ''Build a replica of the cafe'', ''Hire an actor'']) =
     \<lparr>awkwardnessScore = parseInt ''85'', complexityRating = parseInt ''70'',
      optimalityScore = parseInt ''92'',
      nathanObservation = trim ''The pauses are well documented. I would rehearse it 47 more times.'',
      improvementSuggestions = map trim [''Time each pause with a stopwatch'', ''Build a replica of the cafe'', ''Hire an actor''],
      breakdown = \<lparr>dialogueQuality = parseInt ''64'', preparationLevel = parseInt ''100'',
        awkwardnessAuthenticity = parseInt ''7'', statisticalCredibility = parseInt ''051''\<rparr>\<rparr>"
    by (rule T[THEN conjunct1, rule_format]) (intro conjI h1 h2 h3 h4 h5 h6 h7 h8 h9 h10 h11 h12 h13)
  then have main: "parseAnalysisResponse exampleReply =
      \<lparr>awkwardnessScore = 85, complexityRating = 70, optimalityScore = 92,
       nathanObservation = ''The pauses are well documented. I would rehearse it 47 more times.'',
       improvementSuggestions =
         [''Time each pause with a stopwatch'', ''Build a replica of the cafe'', ''Hire an actor''],
       breakdown = \<lparr>dialogueQuality = 64, preparationLevel = 100,
         awkwardnessAuthenticity = 7, statisticalCredibility = 51\<rparr>\<rparr>"
    unfolding exampleReply_def v1 v2 v3 v4 v5 v6 v7 v8 v9 .
  have c1: "awkwardnessScore (parseAnalysisResponse exampleGarbledReply) = 73"
    by (rule T[THEN conjunct2, THEN conjunct1, rule_format]) (rule g1)
  have c2: "complexityRating (parseAnalysisResponse exampleGarbledReply) = 67"
    by (rule T[THEN conjunct2, THEN conjunct2, THEN conjunct1, rule_format]) (rule g2)
  have c3: "optimalityScore (parseAnalysisResponse exampleGarbledReply) = 81"
    by (rule T[THEN conjunct2, THEN conjunct2, THEN conjunct2, THEN conjunct1, rule_format]) (rule g3)
  have c4: "dialogueQuality (breakdown (parseAnalysisResponse exampleGarbledReply)) = 75"
    by (rule T[THEN conjunct2, THEN conjunct2, THEN conjunct2, THEN conjunct2, THEN conjunct1, rule_format]) (rule g4)
  have c5: "preparationLevel (breakdown (parseAnalysisResponse exampleGarbledReply)) = 68"
    by (rule T[THEN conjunct2, THEN conjunct2, THEN conjunct2, THEN conjunct2, THEN conjunct2, THEN conjunct1, rule_format]) (rule g5)
  have c6: "awkwardnessAuthenticity (breakdown (parseAnalysisResponse exampleGarbledReply)) = 82"
    by (rule T[THEN conjunct2, THEN conjunct2, THEN conjunct2, THEN conjunct2, THEN conjunct2, THEN conjunct2, THEN conjunct1, rule_format]) (rule g6)
  have c7: "statisticalCredibility (breakdown (parseAnalysisResponse exampleGarbledReply)) = 45"
    by (rule T[THEN conjunct2, THEN conjunct2, THEN conjunct2, THEN conjunct2, THEN conjunct2, THEN conjunct2, THEN conjunct2, THEN conjunct1, rule_format]) (rule g7)
  have c8: "nathanObservation (parseAnalysisResponse exampleGarbledReply) =
     ''This script shows promise but needs more statistical backing and at least 47 additional rehearsals.''"
    by (rule T[THEN conjunct2, THEN conjunct2, THEN conjunct2, THEN conjunct2, THEN conjunct2, THEN conjunct2, THEN conjunct2, THEN conjunct2, THEN conjunct1, rule_format]) (rule g8)
  have c9: "improvementSuggestions (parseAnalysisResponse exampleGarbledReply) =
     [''Add more specific timing for awkward pauses'',
      ''Include backup dialogue for when the first option fails'',
      ''Consider building a scale model of the location'']"
    by (rule T[THEN conjunct2, THEN conjunct2, THEN conjunct2, THEN conjunct2, THEN conjunct2, THEN conjunct2, THEN conjunct2, THEN conjunct2, THEN conjunct2, THEN conjunct1, rule_format]) (rule g9)
  show ?thesis
    by (intro conjI h1 h2 h3 h4 h5 h6 h7 h8 h9 h10 h11 h12 h13 main g1 g2 g3 g4 g5 g6 g7 g8 g9 c1 c2 c3 c4 c5 c6 c7 c8 c9 n1 n2 n3 n4 n5 n6 n7 n8 n9 dflt)
qed

end
